theory Spec2Isabelle
  imports Complex_Main "HOL-Library.Sublist" "HOL-Library.Char_ord" "HOL-Library.List_Lexorder"
    "HOL-Library.Product_Lexorder"
begin

section \<open>Values shared by the three stages\<close>

text \<open>
  A parsed JSON document, as \<^verbatim>\<open>response.json()\<close> and \<^verbatim>\<open>json.load\<close> return it. An
  object is the list of its items in insertion order (a Python \<^verbatim>\<open>dict\<close>); JSON numbers
  are read as real numbers.
\<close>

datatype json =
    JNull
  | JBool bool
  | JNum real
  | JStr string
  | JArr "json list"
  | JObj "(string \<times> json) list"

text \<open>Python's truth value of a parsed JSON value (\<^verbatim>\<open>not v\<close> is its negation).\<close>

fun truthy :: "json \<Rightarrow> bool" where
  "truthy JNull = False"
| "truthy (JBool b) = b"
| "truthy (JNum x) = (x \<noteq> 0)"
| "truthy (JStr s) = (s \<noteq> [])"
| "truthy (JArr xs) = (xs \<noteq> [])"
| "truthy (JObj kvs) = (kvs \<noteq> [])"

text \<open>
  The exceptions the scripts raise or let escape. \<open>ValueError\<close> carries its message.
  \<open>RuntimeError name status\<close> stands for
  \<^verbatim>\<open>RuntimeError(f"API Error for {name} - Status {status}")\<close>, \<open>KeyError\<close> carries the
  missing label, and \<open>RetryError\<close> is the exception of the HTTP library once its retries
  are used up. \<open>Unmodelled\<close> is not an exception: it marks an input on which the outcome
  is decided inside the table library in a way this development does not follow (a
  section whose values are not arrays, a metric column that is not numeric). No statement
  below is about such an input.
\<close>

datatype error =
    ValueError string
  | RuntimeError string nat
  | AttributeError
  | KeyError string
  | IndexError
  | TypeError
  | RetryError
  | Unmodelled

text \<open>\<^verbatim>\<open>d.get(k, default)\<close> on a dict given by its items.\<close>

definition dict_get :: "(string \<times> json) list \<Rightarrow> string \<Rightarrow> json \<Rightarrow> json" where
  "dict_get d k dflt = (case map_of d k of None \<Rightarrow> dflt | Some v \<Rightarrow> v)"

text \<open>
  \<^verbatim>\<open>v.get(k, default)\<close> on an arbitrary parsed value: only a dict has the method, on
  anything else the attribute lookup raises.
\<close>

definition py_get :: "json \<Rightarrow> string \<Rightarrow> json \<Rightarrow> error + json" where
  "py_get v k dflt = (case v of JObj d \<Rightarrow> Inr (dict_get d k dflt) | _ \<Rightarrow> Inl AttributeError)"

text \<open>
  \<^verbatim>\<open>k in v\<close> for a string \<open>k\<close>: key membership on a dict, element membership on a list,
  substring test on a string, and \<open>TypeError\<close> on \<^verbatim>\<open>None\<close>, a bool or a number.
\<close>

definition py_in :: "string \<Rightarrow> json \<Rightarrow> error + bool" where
  "py_in k v =
     (case v of
        JObj d \<Rightarrow> Inr (k \<in> fst ` set d)
      | JArr xs \<Rightarrow> Inr (JStr k \<in> set xs)
      | JStr s \<Rightarrow> Inr (sublist k s)
      | _ \<Rightarrow> Inl TypeError)"

section \<open>Ingestion: \<^verbatim>\<open>scripts/test_api_call.py\<close>\<close>

subsection \<open>The fetch client\<close>

text \<open>
  \<^verbatim>\<open>Retry(total=5, backoff_factor=0.3, status_forcelist=[429, 500, 502, 503, 504])\<close>,
  mounted on the session for both schemes.
\<close>

record retry =
  retries_total :: int
  backoff_factor :: real
  status_forcelist :: "nat list"

definition retry_strategy :: retry where
  "retry_strategy =
     \<lparr>retries_total = 5, backoff_factor = 3 / 10, status_forcelist = [429, 500, 502, 503, 504]\<rparr>"

record response =
  status_code :: nat
  body :: json

record location =
  name :: string
  lat :: real
  lon :: real
  timezone :: string

text \<open>
  \<^verbatim>\<open>session.get\<close> through the mounted adapter, for a request that is not answered from
  the cache. The server is given by the response it sends to the \<open>n\<close>-th attempt
  (counted from 0); every attempt is answered, and no response carries a
  \<^verbatim>\<open>Retry-After\<close> header. The loop is the HTTP library's: a response whose status is in
  \<open>status_forcelist\<close> consumes one retry (\<^verbatim>\<open>total\<close> goes down by one), the request is sent
  again unless \<^verbatim>\<open>total\<close> has dropped below zero, in which case the library raises and the
  session reports \<open>RetryError\<close>; any other response is handed back. The second component
  is the number of HTTP attempts made. The sleeps between attempts are not part of the
  model.
\<close>

function urlopen :: "retry \<Rightarrow> (nat \<Rightarrow> response) \<Rightarrow> nat \<Rightarrow> (error + response) \<times> nat" where
  "urlopen r server n =
     (if status_code (server n) \<in> set (status_forcelist r)
      then (if retries_total r - 1 < 0 then (Inl RetryError, Suc n)
            else urlopen (r\<lparr>retries_total := retries_total r - 1\<rparr>) server (Suc n))
      else (Inr (server n), Suc n))"
  by pat_completeness auto
termination
  by (relation "measure (\<lambda>(r, server, n). nat (retries_total r))") auto

definition session_get :: "(nat \<Rightarrow> response) \<Rightarrow> (error + response) \<times> nat" where
  "session_get server = urlopen retry_strategy server 0"

text \<open>
  \<^verbatim>\<open>fetch_raw_weather(location)\<close>: the request is determined by the location (and the fixed
  configuration), so the server is a function of it. The body of a response is the value
  \<^verbatim>\<open>response.json()\<close> returns.
\<close>

definition fetch_raw_weather :: "(location \<Rightarrow> nat \<Rightarrow> response) \<Rightarrow> location \<Rightarrow> (error + json) \<times> nat" where
  "fetch_raw_weather server loc =
     (case session_get (server loc) of
        (Inl e, n) \<Rightarrow> (Inl e, n)
      | (Inr resp, n) \<Rightarrow>
          if status_code resp \<noteq> 200
          then (Inl (RuntimeError (name loc) (status_code resp)), n)
          else (Inr (body resp), n))"

subsection \<open>Validation\<close>

text \<open>Python's \<^verbatim>\<open>repr\<close> of a list of plain strings, as the f-string prints \<^verbatim>\<open>missing\<close>.\<close>

definition repr_str :: "string \<Rightarrow> string" where
  "repr_str s = [CHR 0x27] @ s @ [CHR 0x27]"

fun join_comma :: "string list \<Rightarrow> string" where
  "join_comma [] = []"
| "join_comma [s] = s"
| "join_comma (s # t # ss) = s @ '', '' @ join_comma (t # ss)"

definition repr_list :: "string list \<Rightarrow> string" where
  "repr_list ks = ''['' @ join_comma (map repr_str ks) @ '']''"

definition required :: "string list" where
  "required = [''latitude'', ''longitude'', ''timezone'', ''hourly'', ''daily'', ''current'']"

text \<open>
  \<^verbatim>\<open>[k for k in required if k not in data]\<close>: the comprehension stops at the first
  membership test that raises.
\<close>

fun missing_keys :: "string list \<Rightarrow> json \<Rightarrow> error + string list" where
  "missing_keys [] data = Inr []"
| "missing_keys (k # ks) data =
     (case py_in k data of
        Inl e \<Rightarrow> Inl e
      | Inr present \<Rightarrow>
          (case missing_keys ks data of
             Inl e \<Rightarrow> Inl e
           | Inr ms \<Rightarrow> Inr (if present then ms else k # ms)))"

definition validate_top_level_keys :: "json \<Rightarrow> error + unit" where
  "validate_top_level_keys data =
     (case missing_keys required data of
        Inl e \<Rightarrow> Inl e
      | Inr missing \<Rightarrow>
          if missing \<noteq> []
          then Inl (ValueError (''Missing top-level keys: '' @ repr_list missing))
          else Inr ())"

definition validate_sections :: "json \<Rightarrow> error + unit" where
  "validate_sections data =
     (case py_get data ''hourly'' JNull of
        Inl e \<Rightarrow> Inl e
      | Inr hourly \<Rightarrow>
          if \<not> truthy hourly then Inl (ValueError ''Missing or empty 'hourly' section.'')
          else (case py_get data ''daily'' JNull of
             Inl e \<Rightarrow> Inl e
           | Inr daily \<Rightarrow>
               if \<not> truthy daily then Inl (ValueError ''Missing or empty 'daily' section.'')
               else (case py_get data ''current'' JNull of
                  Inl e \<Rightarrow> Inl e
                | Inr current \<Rightarrow>
                    if \<not> truthy current
                    then Inl (ValueError ''Missing or empty 'current' section.'')
                    else Inr ())))"

text \<open>\<^verbatim>\<open>data.get(sec, {}).get("time", [])\<close>.\<close>

definition section_time :: "json \<Rightarrow> string \<Rightarrow> error + json" where
  "section_time data sec =
     (case py_get data sec (JObj []) of
        Inl e \<Rightarrow> Inl e
      | Inr section \<Rightarrow> py_get section ''time'' (JArr []))"

definition validate_non_empty_arrays :: "json \<Rightarrow> error + unit" where
  "validate_non_empty_arrays data =
     (case section_time data ''hourly'' of
        Inl e \<Rightarrow> Inl e
      | Inr hourly_times \<Rightarrow>
          (case section_time data ''daily'' of
             Inl e \<Rightarrow> Inl e
           | Inr daily_times \<Rightarrow>
               if \<not> truthy hourly_times then Inl (ValueError ''Hourly time array is empty.'')
               else if \<not> truthy daily_times then Inl (ValueError ''Daily time array is empty.'')
               else Inr ()))"

subsection \<open>The raw store and \<^verbatim>\<open>main\<close>\<close>

text \<open>
  The bronze directory is the list of files written so far, each with the location name
  it was saved under and the payload dumped into it. \<open>ingest\<close> is the body of the loop of
  \<^verbatim>\<open>main\<close> after the fetch: three validations, then \<^verbatim>\<open>save_raw_json\<close>. It returns the store
  as the call leaves it, and the exception that escaped, if any. \<open>main\<close> is the loop over
  the configured locations; an exception ends it.
\<close>

type_synonym bronze = "(string \<times> json) list"

definition save_raw_json :: "string \<Rightarrow> json \<Rightarrow> bronze \<Rightarrow> bronze" where
  "save_raw_json location_name raw_json store = store @ [(location_name, raw_json)]"

definition ingest :: "string \<Rightarrow> json \<Rightarrow> bronze \<Rightarrow> bronze \<times> error option" where
  "ingest location_name data store =
     (case validate_top_level_keys data of
        Inl e \<Rightarrow> (store, Some e)
      | Inr _ \<Rightarrow>
          (case validate_sections data of
             Inl e \<Rightarrow> (store, Some e)
           | Inr _ \<Rightarrow>
               (case validate_non_empty_arrays data of
                  Inl e \<Rightarrow> (store, Some e)
                | Inr _ \<Rightarrow> (save_raw_json location_name data store, None))))"

fun main :: "(location \<Rightarrow> nat \<Rightarrow> response) \<Rightarrow> location list \<Rightarrow> bronze \<Rightarrow> bronze \<times> error option" where
  "main server [] store = (store, None)"
| "main server (loc # locs) store =
     (case fst (fetch_raw_weather server loc) of
        Inl e \<Rightarrow> (store, Some e)
      | Inr data \<Rightarrow>
          (case ingest (name loc) data store of
             (store', Some e) \<Rightarrow> (store', Some e)
           | (store', None) \<Rightarrow> main server locs store'))"

section \<open>Tables\<close>

text \<open>
  A table of the library the scripts compute with (a \<^verbatim>\<open>DataFrame\<close>) is the list of its
  labelled columns, in column order. A column is numeric (floats idealised as reals,
  \<open>None\<close> for NaN), a timestamp column (\<open>None\<close> for NaT), or a column of arbitrary
  objects, which are the parsed JSON values here. The rows are the positions \<open>0, 1, ...\<close>;
  all columns of a table have the same length.
\<close>

type_synonym timestamp = int

datatype column =
    NumCol "real option list"
  | TsCol "timestamp option list"
  | ObjCol "json list"

type_synonym frame = "(string \<times> column) list"

fun col_len :: "column \<Rightarrow> nat" where
  "col_len (NumCol xs) = length xs"
| "col_len (TsCol ts) = length ts"
| "col_len (ObjCol vs) = length vs"

definition columns :: "frame \<Rightarrow> string list" where
  "columns df = map fst df"

definition nrows :: "frame \<Rightarrow> nat" where
  "nrows df = (case df of [] \<Rightarrow> 0 | (k, c) # rest \<Rightarrow> col_len c)"


text \<open>\<^verbatim>\<open>df[k]\<close> and \<^verbatim>\<open>df[k] = c\<close>: an existing label is overwritten in place, a new one is
  appended as the last column.\<close>

definition getitem :: "frame \<Rightarrow> string \<Rightarrow> error + column" where
  "getitem df k = (case map_of df k of None \<Rightarrow> Inl (KeyError k) | Some c \<Rightarrow> Inr c)"

fun setitem :: "frame \<Rightarrow> string \<Rightarrow> column \<Rightarrow> frame" where
  "setitem [] k c = [(k, c)]"
| "setitem ((k', c') # df) k c = (if k' = k then (k, c) # df else (k', c') # setitem df k c)"

text \<open>\<^verbatim>\<open>col.iloc[0]\<close>: the first element of a column, which must have one.\<close>

datatype cell = NumCell "real option" | TsCell "timestamp option" | ObjCell json

fun iloc0 :: "column \<Rightarrow> error + cell" where
  "iloc0 (NumCol []) = Inl IndexError"
| "iloc0 (NumCol (x # xs)) = Inr (NumCell x)"
| "iloc0 (TsCol []) = Inl IndexError"
| "iloc0 (TsCol (t # ts)) = Inr (TsCell t)"
| "iloc0 (ObjCol []) = Inl IndexError"
| "iloc0 (ObjCol (v # vs)) = Inr (ObjCell v)"

text \<open>Assigning a scalar fills the column over all rows.\<close>

definition set_str :: "frame \<Rightarrow> string \<Rightarrow> string \<Rightarrow> frame" where
  "set_str df k s = setitem df k (ObjCol (replicate (nrows df) (JStr s)))"

definition set_now :: "frame \<Rightarrow> string \<Rightarrow> timestamp \<Rightarrow> frame" where
  "set_now df k now = setitem df k (TsCol (replicate (nrows df) (Some now)))"

subsection \<open>Coercion\<close>

text \<open>
  The two scalar parsers of the library are parameters: \<open>parse_ts col v\<close> is the timestamp
  \<^verbatim>\<open>to_datetime\<close> reads from the element \<open>v\<close> of the column \<open>col\<close> (\<open>None\<close> when it cannot),
  and \<open>parse_float s\<close> the number \<^verbatim>\<open>to_numeric\<close> reads from the non-empty string \<open>s\<close>.
\<close>

record parsers =
  parse_ts :: "json list \<Rightarrow> json \<Rightarrow> timestamp option"
  parse_float :: "string \<Rightarrow> real option"

text \<open>
  What \<^verbatim>\<open>to_numeric\<close> makes of one object: \<open>Some r\<close> when it converts (to NaN when \<open>r\<close> is
  \<open>None\<close>), \<open>None\<close> when the object cannot be converted. Numbers convert to themselves,
  booleans are read as 1 and 0, \<^verbatim>\<open>None\<close> and values of length 0 become NaN.
\<close>

fun num_of :: "parsers \<Rightarrow> json \<Rightarrow> real option option" where
  "num_of P JNull = Some None"
| "num_of P (JBool b) = Some (Some (if b then 1 else 0))"
| "num_of P (JNum x) = Some (Some x)"
| "num_of P (JStr s) =
     (if s = [] then Some None
      else (case parse_float P s of None \<Rightarrow> None | Some x \<Rightarrow> Some (Some x)))"
| "num_of P (JArr xs) = (if xs = [] then Some None else None)"
| "num_of P (JObj kvs) = (if kvs = [] then Some None else None)"

text \<open>The reading of a timestamp column as 64-bit integers; NaT is the least of them.\<close>

definition i8 :: "timestamp option \<Rightarrow> real option" where
  "i8 t = Some (case t of None \<Rightarrow> - 9223372036854775808 | Some n \<Rightarrow> real_of_int n)"

text \<open>\<^verbatim>\<open>pd.to_numeric(col)\<close>, which raises at the first object that does not convert.\<close>

fun to_numeric_list :: "parsers \<Rightarrow> json list \<Rightarrow> error + real option list" where
  "to_numeric_list P [] = Inr []"
| "to_numeric_list P (v # vs) =
     (case num_of P v of
        None \<Rightarrow> Inl (case v of JStr s \<Rightarrow> ValueError ''Unable to parse string'' | _ \<Rightarrow> TypeError)
      | Some r \<Rightarrow>
          (case to_numeric_list P vs of Inl e \<Rightarrow> Inl e | Inr rs \<Rightarrow> Inr (r # rs)))"

fun to_numeric :: "parsers \<Rightarrow> column \<Rightarrow> error + column" where
  "to_numeric P (NumCol xs) = Inr (NumCol xs)"
| "to_numeric P (TsCol ts) = Inr (NumCol (map i8 ts))"
| "to_numeric P (ObjCol vs) =
     (case to_numeric_list P vs of Inl e \<Rightarrow> Inl e | Inr rs \<Rightarrow> Inr (NumCol rs))"

text \<open>\<^verbatim>\<open>pd.to_numeric(col, errors="coerce")\<close>: an object that does not convert becomes NaN.\<close>

definition coerce_num :: "parsers \<Rightarrow> json \<Rightarrow> real option" where
  "coerce_num P v = (case num_of P v of None \<Rightarrow> None | Some r \<Rightarrow> r)"

fun to_numeric_coerce :: "parsers \<Rightarrow> column \<Rightarrow> column" where
  "to_numeric_coerce P (NumCol xs) = NumCol xs"
| "to_numeric_coerce P (TsCol ts) = NumCol (map i8 ts)"
| "to_numeric_coerce P (ObjCol vs) = NumCol (map (coerce_num P) vs)"

text \<open>\<^verbatim>\<open>pd.to_datetime(col, errors="coerce")\<close>: an element that does not parse becomes NaT.\<close>

definition num_json :: "real option \<Rightarrow> json" where
  "num_json x = (case x of None \<Rightarrow> JNull | Some r \<Rightarrow> JNum r)"

fun to_datetime_coerce :: "parsers \<Rightarrow> column \<Rightarrow> column" where
  "to_datetime_coerce P (TsCol ts) = TsCol ts"
| "to_datetime_coerce P (ObjCol vs) = TsCol (map (parse_ts P vs) vs)"
| "to_datetime_coerce P (NumCol xs) = TsCol (map (parse_ts P (map num_json xs)) (map num_json xs))"

section \<open>Conformance: \<^verbatim>\<open>scripts/silver_transform.py\<close>\<close>

text \<open>
  \<^verbatim>\<open>_validate_list_lengths\<close>: the lengths of the values that are lists are all equal. The
  call \<^verbatim>\<open>section.values()\<close> exists on a dict only.
\<close>

fun list_lengths :: "(string \<times> json) list \<Rightarrow> nat list" where
  "list_lengths [] = []"
| "list_lengths ((k, JArr xs) # kvs) = length xs # list_lengths kvs"
| "list_lengths ((k, v) # kvs) = list_lengths kvs"

definition validate_list_lengths :: "json \<Rightarrow> error + bool" where
  "validate_list_lengths section =
     (case section of
        JObj kvs \<Rightarrow> Inr (length (remdups (list_lengths kvs)) \<le> 1)
      | _ \<Rightarrow> Inl AttributeError)"

text \<open>
  \<^verbatim>\<open>pd.DataFrame({k: pd.Series(v) for k, v in section.items()})\<close>, for values that are
  arrays: one column of objects per key, rows aligned by position, a shorter array filled
  up with missing values to the length of the longest.
\<close>

fun series_items :: "(string \<times> json) list \<Rightarrow> error + (string \<times> json list) list" where
  "series_items [] = Inr []"
| "series_items ((k, JArr xs) # kvs) =
     (case series_items kvs of Inl e \<Rightarrow> Inl e | Inr cols \<Rightarrow> Inr ((k, xs) # cols))"
| "series_items ((k, v) # kvs) = Inl Unmodelled"

definition longest :: "(string \<times> json list) list \<Rightarrow> nat" where
  "longest cols = foldr (\<lambda>(k, xs) m. max (length xs) m) cols 0"

definition pad :: "nat \<Rightarrow> json list \<Rightarrow> json list" where
  "pad n xs = xs @ replicate (n - length xs) JNull"

definition DataFrame_series :: "json \<Rightarrow> error + frame" where
  "DataFrame_series section =
     (case section of
        JObj kvs \<Rightarrow>
          (case series_items kvs of
             Inl e \<Rightarrow> Inl e
           | Inr cols \<Rightarrow> Inr (map (\<lambda>(k, xs). (k, ObjCol (pad (longest cols) xs))) cols))
      | _ \<Rightarrow> Inl AttributeError)"


text \<open>
  \<^verbatim>\<open>if "time" in df.columns: df["time"] = pd.to_datetime(df["time"], errors="coerce")\<close>
\<close>

definition convert_time :: "parsers \<Rightarrow> frame \<Rightarrow> frame" where
  "convert_time P df =
     (case map_of df ''time'' of
        None \<Rightarrow> df
      | Some c \<Rightarrow> setitem df ''time'' (to_datetime_coerce P c))"



text \<open>
  The loop of \<^verbatim>\<open>transform_hourly\<close> and \<^verbatim>\<open>transform_daily\<close> over \<^verbatim>\<open>df.columns\<close>. When a label
  occurs more than once, \<^verbatim>\<open>df[col]\<close> is a table and \<^verbatim>\<open>to_numeric\<close> raises \<open>TypeError\<close> on it.
\<close>

fun numeric_loop :: "parsers \<Rightarrow> string list \<Rightarrow> frame \<Rightarrow> error + frame" where
  "numeric_loop P [] df = Inr df"
| "numeric_loop P (col # cols) df =
     (if col \<noteq> ''time''
      then (if length (filter (\<lambda>k. k = col) (columns df)) > 1 then Inl TypeError
            else (case getitem df col of
                    Inl e \<Rightarrow> Inl e
                  | Inr c \<Rightarrow> numeric_loop P cols (setitem df col (to_numeric_coerce P c))))
      else numeric_loop P cols df)"

definition transform_hourly :: "parsers \<Rightarrow> timestamp \<Rightarrow> json \<Rightarrow> string \<Rightarrow> error + frame" where
  "transform_hourly P now data location =
     (case py_get data ''hourly'' (JObj []) of
        Inl e \<Rightarrow> Inl e
      | Inr hourly \<Rightarrow>
          if \<not> truthy hourly then Inr []
          else (case validate_list_lengths hourly of
                  Inl e \<Rightarrow> Inl e
                | Inr lengths_agree \<Rightarrow>
                    (case DataFrame_series hourly of
                       Inl e \<Rightarrow> Inl e
                     | Inr df0 \<Rightarrow>
                         let df1 = convert_time P df0 in
                         (case numeric_loop P (columns df1) df1 of
                            Inl e \<Rightarrow> Inl e
                          | Inr df2 \<Rightarrow>
                              let df3 = set_str df2 ''location'' location
                              in Inr (set_now df3 ''load_timestamp'' now)))))"

definition rename_map :: "(string \<times> string) list" where
  "rename_map =
     [(''temperature_2m_max'', ''temp_max''),
      (''temperature_2m_min'', ''temp_min''),
      (''wind_speed_10m_max'', ''wind_speed_max''),
      (''precipitation_sum'', ''precip_total'')]"

text \<open>\<^verbatim>\<open>df.rename(columns=m)\<close>: a label that is a key of \<open>m\<close> is replaced, any other is kept.\<close>

definition renamed :: "(string \<times> string) list \<Rightarrow> string \<Rightarrow> string" where
  "renamed m k = (case map_of m k of None \<Rightarrow> k | Some k' \<Rightarrow> k')"

definition rename :: "(string \<times> string) list \<Rightarrow> frame \<Rightarrow> frame" where
  "rename m df = map (\<lambda>(k, c). (renamed m k, c)) df"

definition transform_daily :: "parsers \<Rightarrow> timestamp \<Rightarrow> json \<Rightarrow> string \<Rightarrow> error + frame" where
  "transform_daily P now data location =
     (case py_get data ''daily'' (JObj []) of
        Inl e \<Rightarrow> Inl e
      | Inr daily \<Rightarrow>
          if \<not> truthy daily then Inr []
          else (case validate_list_lengths daily of
                  Inl e \<Rightarrow> Inl e
                | Inr lengths_agree \<Rightarrow>
                    (case DataFrame_series daily of
                       Inl e \<Rightarrow> Inl e
                     | Inr df0 \<Rightarrow>
                         let df1 = rename rename_map df0;
                             df2 = convert_time P df1 in
                         (case numeric_loop P (columns df2) df2 of
                            Inl e \<Rightarrow> Inl e
                          | Inr df3 \<Rightarrow>
                              let df4 = set_str df3 ''location'' location
                              in Inr (set_now df4 ''load_timestamp'' now)))))"

subsection \<open>The conformed store and \<^verbatim>\<open>process_file\<close>\<close>

text \<open>
  A written file: the folder, the prefix and the location that make up its name, the clock
  reading of the name, and the table stored. The lake is the list of files written so
  far. Within one call the clock is read as one instant.
\<close>

record artifact =
  folder :: string
  name_prefix :: string
  place :: cell
  stamp :: timestamp
  content :: frame

type_synonym lake = "artifact list"




section \<open>Curation: \<^verbatim>\<open>scripts/gold_transform.py\<close>\<close>

text \<open>
  A metric column read for arithmetic, comparison or aggregation. The conformed daily
  table holds its metrics as numeric columns; the functions below are followed on
  those only.
\<close>

definition metric :: "frame \<Rightarrow> string \<Rightarrow> error + real option list" where
  "metric df k =
     (case getitem df k of
        Inl e \<Rightarrow> Inl e
      | Inr (NumCol xs) \<Rightarrow> Inr xs
      | Inr c \<Rightarrow> Inl Unmodelled)"

text \<open>Comparisons with NaN are false.\<close>

definition gt :: "real option \<Rightarrow> real \<Rightarrow> bool" where
  "gt x c = (case x of None \<Rightarrow> False | Some v \<Rightarrow> v > c)"

definition lt :: "real option \<Rightarrow> real \<Rightarrow> bool" where
  "lt x c = (case x of None \<Rightarrow> False | Some v \<Rightarrow> v < c)"

subsection \<open>Daily summary\<close>

text \<open>
  The group keys of \<^verbatim>\<open>df.groupby(["time", "location"])\<close>, for a timestamp column and a
  column of strings: a row with a missing key value belongs to no group.
\<close>

fun str_keys :: "json list \<Rightarrow> error + string option list" where
  "str_keys [] = Inr []"
| "str_keys (v # vs) =
     (case str_keys vs of
        Inl e \<Rightarrow> Inl e
      | Inr ss \<Rightarrow>
          (case v of
             JStr s \<Rightarrow> Inr (Some s # ss)
           | JNull \<Rightarrow> Inr (None # ss)
           | _ \<Rightarrow> Inl Unmodelled))"

definition row_key :: "timestamp option \<times> string option \<Rightarrow> (timestamp \<times> string) option" where
  "row_key p = (case p of (Some t, Some l) \<Rightarrow> Some (t, l) | _ \<Rightarrow> None)"

definition row_keys :: "timestamp option list \<Rightarrow> string option list \<Rightarrow> (timestamp \<times> string) option list" where
  "row_keys ts ls = map row_key (zip ts ls)"

text \<open>The groups, one per key that occurs, in ascending order of the key.\<close>

definition group_keys :: "(timestamp \<times> string) option list \<Rightarrow> (timestamp \<times> string) list" where
  "group_keys keys = sort (remdups (concat (map (\<lambda>k. case k of None \<Rightarrow> [] | Some g \<Rightarrow> [g]) keys)))"

text \<open>The values of a column in the rows of one group.\<close>

definition group_values :: "(timestamp \<times> string) option list \<Rightarrow> 'a list \<Rightarrow> timestamp \<times> string \<Rightarrow> 'a list" where
  "group_values keys xs g = map snd (filter (\<lambda>(k, x). k = Some g) (zip keys xs))"

text \<open>The aggregations skip NaN; over no value the mean, maximum and minimum are NaN and
  the sum is 0.\<close>

definition present :: "real option list \<Rightarrow> real list" where
  "present xs = concat (map (\<lambda>x. case x of None \<Rightarrow> [] | Some v \<Rightarrow> [v]) xs)"

definition agg_mean :: "real option list \<Rightarrow> real option" where
  "agg_mean xs =
     (case present xs of
        [] \<Rightarrow> None
      | v # vs \<Rightarrow> Some (sum_list (v # vs) / real (length (v # vs))))"

definition agg_max :: "real option list \<Rightarrow> real option" where
  "agg_max xs = (case present xs of [] \<Rightarrow> None | v # vs \<Rightarrow> Some (fold max vs v))"

definition agg_min :: "real option list \<Rightarrow> real option" where
  "agg_min xs = (case present xs of [] \<Rightarrow> None | v # vs \<Rightarrow> Some (fold min vs v))"

definition agg_sum :: "real option list \<Rightarrow> real option" where
  "agg_sum xs = Some (sum_list (present xs))"

text \<open>\<^verbatim>\<open>lambda x: "hot" if x > 35 else ("cold" if x < 10 else "moderate")\<close>\<close>

definition weather_label :: "real option \<Rightarrow> string" where
  "weather_label x = (if gt x 35 then ''hot'' else (if lt x 10 then ''cold'' else ''moderate''))"

text \<open>
  \<^verbatim>\<open>build_daily_summary\<close>. A missing key column or metric column is a \<open>KeyError\<close> (with
  the first missing label).
\<close>

definition build_daily_summary :: "timestamp \<Rightarrow> frame \<Rightarrow> error + frame" where
  "build_daily_summary now df_daily =
     (case getitem df_daily ''time'' of
        Inl e \<Rightarrow> Inl e
      | Inr time \<Rightarrow>
     (case getitem df_daily ''location'' of
        Inl e \<Rightarrow> Inl e
      | Inr loc \<Rightarrow>
     (case metric df_daily ''temp_max'' of
        Inl e \<Rightarrow> Inl e
      | Inr temp_max \<Rightarrow>
     (case metric df_daily ''temp_min'' of
        Inl e \<Rightarrow> Inl e
      | Inr temp_min \<Rightarrow>
     (case metric df_daily ''precip_total'' of
        Inl e \<Rightarrow> Inl e
      | Inr precip_total \<Rightarrow>
     (case metric df_daily ''wind_speed_max'' of
        Inl e \<Rightarrow> Inl e
      | Inr wind_speed_max \<Rightarrow>
     (case (time, loc) of
        (TsCol ts, ObjCol ls) \<Rightarrow>
          (case str_keys ls of
             Inl e \<Rightarrow> Inl e
           | Inr ss \<Rightarrow>
               let keys = row_keys ts ss;
                   groups = group_keys keys;
                   avg_temp = map (\<lambda>g. agg_mean (group_values keys temp_max g)) groups;
                   summary =
                     [(''time'', TsCol (map (\<lambda>g. Some (fst g)) groups)),
                      (''location'', ObjCol (map (\<lambda>g. JStr (snd g)) groups)),
                      (''avg_temp'', NumCol avg_temp),
                      (''max_temp'', NumCol (map (\<lambda>g. agg_max (group_values keys temp_max g)) groups)),
                      (''min_temp'', NumCol (map (\<lambda>g. agg_min (group_values keys temp_min g)) groups)),
                      (''total_precip'',
                         NumCol (map (\<lambda>g. agg_sum (group_values keys precip_total g)) groups)),
                      (''max_wind_speed'',
                         NumCol (map (\<lambda>g. agg_max (group_values keys wind_speed_max g)) groups))];
                   summary1 = setitem summary ''weather_label''
                                (ObjCol (map (\<lambda>x. JStr (weather_label x)) avg_temp))
               in Inr (set_now summary1 ''load_timestamp'' now))
      | _ \<Rightarrow> Inl Unmodelled)))))))"

subsection \<open>Alerts\<close>

text \<open>\<^verbatim>\<open>(col > c).astype(int)\<close>\<close>

definition flag :: "real option list \<Rightarrow> real \<Rightarrow> real option list" where
  "flag xs c = map (\<lambda>x. Some (if gt x c then 1 else 0)) xs"

text \<open>The row function of \<^verbatim>\<open>alerts.apply(..., axis=1)\<close>, on the two flags it reads.\<close>

definition risk_level :: "real option \<times> real option \<Rightarrow> string" where
  "risk_level row =
     (case row of (storm_flag, rain_alert_flag) \<Rightarrow>
        if storm_flag = Some 1 then ''high''
        else if rain_alert_flag = Some 1 then ''moderate''
        else ''low'')"

text \<open>
  \<^verbatim>\<open>build_alerts\<close>. On a table without rows the row-wise \<^verbatim>\<open>apply\<close> is settled inside the
  library and is not followed.
\<close>

definition build_alerts :: "timestamp \<Rightarrow> frame \<Rightarrow> error + frame" where
  "build_alerts now df_daily =
     (case getitem df_daily ''time'' of
        Inl e \<Rightarrow> Inl e
      | Inr time \<Rightarrow>
     (case getitem df_daily ''location'' of
        Inl e \<Rightarrow> Inl e
      | Inr loc \<Rightarrow>
     (case metric df_daily ''temp_max'' of
        Inl e \<Rightarrow> Inl e
      | Inr temp_max \<Rightarrow>
     (case metric df_daily ''wind_speed_max'' of
        Inl e \<Rightarrow> Inl e
      | Inr wind_speed_max \<Rightarrow>
     (case metric df_daily ''precip_total'' of
        Inl e \<Rightarrow> Inl e
      | Inr precip_total \<Rightarrow>
          if col_len time = 0 then Inl Unmodelled
          else
            let alerts = setitem [] ''date'' time;
                alerts = setitem alerts ''location'' loc;
                alerts = setitem alerts ''heat_alert_flag'' (NumCol (flag temp_max 35));
                alerts = setitem alerts ''storm_flag'' (NumCol (flag wind_speed_max 50));
                alerts = setitem alerts ''rain_alert_flag'' (NumCol (flag precip_total 20));
                alerts = setitem alerts ''risk_level''
                           (ObjCol (map (\<lambda>row. JStr (risk_level row))
                                      (zip (flag wind_speed_max 50) (flag precip_total 20))))
            in Inr (set_now alerts ''load_timestamp'' now))))))"

subsection \<open>Features\<close>

text \<open>Arithmetic on numeric columns is row by row; NaN in an operand gives NaN.\<close>

definition lift2 :: "(real \<Rightarrow> real \<Rightarrow> real) \<Rightarrow> real option \<times> real option \<Rightarrow> real option" where
  "lift2 f xy = (case xy of (Some a, Some b) \<Rightarrow> Some (f a b) | _ \<Rightarrow> None)"

definition col_sub :: "real option list \<Rightarrow> real option list \<Rightarrow> real option list" where
  "col_sub xs ys = map (lift2 (\<lambda>a b. a - b)) (zip xs ys)"

definition col_add :: "real option list \<Rightarrow> real option list \<Rightarrow> real option list" where
  "col_add xs ys = map (lift2 (\<lambda>a b. a + b)) (zip xs ys)"

definition col_scale :: "real option list \<Rightarrow> real \<Rightarrow> real option list" where
  "col_scale xs c = map (map_option (\<lambda>a. a * c)) xs"

definition build_features :: "timestamp \<Rightarrow> frame \<Rightarrow> error + frame" where
  "build_features now df_daily =
     (let df = df_daily in
      case metric df ''temp_max'' of
        Inl e \<Rightarrow> Inl e
      | Inr temp_max \<Rightarrow>
     (case metric df ''temp_min'' of
        Inl e \<Rightarrow> Inl e
      | Inr temp_min \<Rightarrow>
          let df1 = setitem df ''temperature_range'' (NumCol (col_sub temp_max temp_min)) in
     (case metric df1 ''temp_max'' of
        Inl e \<Rightarrow> Inl e
      | Inr temp_max1 \<Rightarrow>
     (case metric df1 ''precip_total'' of
        Inl e \<Rightarrow> Inl e
      | Inr precip_total \<Rightarrow>
          let df2 = setitem df1 ''humidity_index''
                      (NumCol (col_add (col_scale temp_max1 (1 / 10)) (col_scale precip_total (1 / 2)))) in
     (case metric df2 ''temp_min'' of
        Inl e \<Rightarrow> Inl e
      | Inr temp_min2 \<Rightarrow>
     (case metric df2 ''wind_speed_max'' of
        Inl e \<Rightarrow> Inl e
      | Inr wind_speed_max \<Rightarrow>
          let df3 = setitem df2 ''wind_chill''
                      (NumCol (col_sub temp_min2 (col_scale wind_speed_max (1 / 10))))
          in Inr (set_now df3 ''load_timestamp'' now)))))))"

subsection \<open>\<^verbatim>\<open>process_gold\<close>\<close>

definition save_gold :: "timestamp \<Rightarrow> frame \<Rightarrow> string \<Rightarrow> string \<Rightarrow> cell \<Rightarrow> lake \<Rightarrow> lake" where
  "save_gold now df fld pre location lk =
     lk @ [\<lparr>folder = fld, name_prefix = pre, place = location, stamp = now, content = df\<rparr>]"

text \<open>
  The loop of \<^verbatim>\<open>process_gold\<close> over the conformed daily files, each given by the table
  \<^verbatim>\<open>read_parquet\<close> returns for it. The three datasets are built before any is saved.
\<close>

fun gold_loop :: "timestamp \<Rightarrow> frame list \<Rightarrow> lake \<Rightarrow> lake \<times> error option" where
  "gold_loop now [] lk = (lk, None)"
| "gold_loop now (df_daily # files) lk =
     (case getitem df_daily ''location'' of
        Inl e \<Rightarrow> (lk, Some e)
      | Inr loc \<Rightarrow>
     (case iloc0 loc of
        Inl e \<Rightarrow> (lk, Some e)
      | Inr location \<Rightarrow>
     (case build_daily_summary now df_daily of
        Inl e \<Rightarrow> (lk, Some e)
      | Inr daily_summary \<Rightarrow>
     (case build_alerts now df_daily of
        Inl e \<Rightarrow> (lk, Some e)
      | Inr alerts \<Rightarrow>
     (case build_features now df_daily of
        Inl e \<Rightarrow> (lk, Some e)
      | Inr features \<Rightarrow>
          let lk1 = save_gold now daily_summary ''gold/daily_summary'' ''daily_summary'' location lk;
              lk2 = save_gold now alerts ''gold/alerts'' ''alerts'' location lk1;
              lk3 = save_gold now features ''gold/features'' ''features'' location lk2
          in gold_loop now files lk3)))))"

definition process_gold :: "timestamp \<Rightarrow> frame list \<Rightarrow> lake \<Rightarrow> lake \<times> error option" where
  "process_gold now daily_files lk = (if daily_files = [] then (lk, None) else gold_loop now daily_files lk)"

section \<open>Closed forms used in the proofs\<close>

text \<open>A payload that passes the three checks of the ingestion stage.\<close>

definition accepted :: "json \<Rightarrow> bool" where
  "accepted data \<longleftrightarrow> validate_top_level_keys data = Inr () \<and> validate_sections data = Inr ()
      \<and> validate_non_empty_arrays data = Inr ()"

text \<open>The table \<^verbatim>\<open>build_daily_summary\<close> returns, from the row keys and the four metric columns.\<close>

definition summary_of ::
  "timestamp \<Rightarrow> (timestamp \<times> string) option list \<Rightarrow> real option list \<Rightarrow> real option list
     \<Rightarrow> real option list \<Rightarrow> real option list \<Rightarrow> frame" where
  "summary_of now keys tmax tmin precip wind =
     [(''time'', TsCol (map (\<lambda>g. Some (fst g)) (group_keys keys))),
      (''location'', ObjCol (map (\<lambda>g. JStr (snd g)) (group_keys keys))),
      (''avg_temp'', NumCol (map (\<lambda>g. agg_mean (group_values keys tmax g)) (group_keys keys))),
      (''max_temp'', NumCol (map (\<lambda>g. agg_max (group_values keys tmax g)) (group_keys keys))),
      (''min_temp'', NumCol (map (\<lambda>g. agg_min (group_values keys tmin g)) (group_keys keys))),
      (''total_precip'', NumCol (map (\<lambda>g. agg_sum (group_values keys precip g)) (group_keys keys))),
      (''max_wind_speed'', NumCol (map (\<lambda>g. agg_max (group_values keys wind g)) (group_keys keys))),
      (''weather_label'',
         ObjCol (map (\<lambda>x. JStr (weather_label x))
                   (map (\<lambda>g. agg_mean (group_values keys tmax g)) (group_keys keys)))),
      (''load_timestamp'', TsCol (replicate (length (group_keys keys)) (Some now)))]"



text \<open>The table of objects built from the arrays of a section.\<close>

definition series_frame :: "(string \<times> json list) list \<Rightarrow> frame" where
  "series_frame cols = map (\<lambda>(k, xs). (k, ObjCol (pad (longest cols) xs))) cols"


section \<open>Example inputs\<close>

definition delhi :: location where
  "delhi = \<lparr>name = ''Delhi'', lat = 28.6, lon = 77.2, timezone = ''Asia/Kolkata''\<rparr>"


definition payload_ok :: json where
  "payload_ok = JObj
     [(''latitude'', JNum 28.6), (''longitude'', JNum 77.2), (''timezone'', JStr ''Asia/Kolkata''),
      (''hourly'', JObj [(''time'', JArr [JStr ''2024-05-01T00:00''])]),
      (''daily'', JObj [(''time'', JArr [JStr ''2024-05-01''])]),
      (''current'', JObj [(''temperature_2m'', JNum 31)])]"

definition items_no_daily :: "(string \<times> json) list" where
  "items_no_daily =
     [(''latitude'', JNum 28.6), (''longitude'', JNum 77.2), (''timezone'', JStr ''Asia/Kolkata''),
      (''hourly'', JObj []), (''current'', JNum 0)]"

definition payload_empty_current :: json where
  "payload_empty_current = JObj
     [(''latitude'', JNum 28.6), (''longitude'', JNum 77.2), (''timezone'', JStr ''Asia/Kolkata''),
      (''hourly'', JObj [(''time'', JArr [])]),
      (''daily'', JObj [(''time'', JArr [JStr ''2024-05-01''])]),
      (''current'', JObj [])]"

definition payload_empty_times :: json where
  "payload_empty_times = JObj
     [(''latitude'', JNum 28.6), (''longitude'', JNum 77.2), (''timezone'', JStr ''Asia/Kolkata''),
      (''hourly'', JObj [(''time'', JArr [])]),
      (''daily'', JObj [(''time'', JArr [JStr ''2024-05-01''])]),
      (''current'', JObj [(''temperature_2m'', JNum 31)])]"


definition storm_day :: frame where
  "storm_day =
     [(''time'', TsCol [Some 100]),
      (''temp_max'', NumCol [Some 10]),
      (''temp_min'', NumCol [Some 2]),
      (''wind_speed_max'', NumCol [Some 60]),
      (''precip_total'', NumCol [Some 5]),
      (''location'', ObjCol [JStr ''delhi'']),
      (''load_timestamp'', TsCol [Some 7])]"


text \<open>A daily table without rows, and a day on which every metric is missing.\<close>

definition empty_daily :: frame where
  "empty_daily =
     [(''time'', TsCol []),
      (''temp_max'', NumCol []),
      (''temp_min'', NumCol []),
      (''wind_speed_max'', NumCol []),
      (''precip_total'', NumCol []),
      (''location'', ObjCol []),
      (''load_timestamp'', TsCol [])]"

definition null_day :: frame where
  "null_day =
     [(''time'', TsCol [Some 100]),
      (''temp_max'', NumCol [None]),
      (''temp_min'', NumCol [None]),
      (''wind_speed_max'', NumCol [None]),
      (''precip_total'', NumCol [None]),
      (''location'', ObjCol [JStr ''delhi'']),
      (''load_timestamp'', TsCol [Some 7])]"

text \<open>
  Two scalar parsers that know two dates and one decimal, a payload whose hourly section is
  empty and whose other sections hold values that do not convert, one with an hourly
  section, and the conformed tables of the first.
\<close>

definition iso_parsers :: parsers where
  "iso_parsers =
     \<lparr>parse_ts = (\<lambda>col v. if v = JStr ''2024-05-01'' then Some 100
                          else if v = JStr ''2024-05-02'' then Some 200 else None),
      parse_float = (\<lambda>s. if s = ''1.5'' then Some (3 / 2) else None)\<rparr>"

definition current_items :: "(string \<times> json) list" where
  "current_items =
     [(''time'', JStr ''2024-05-01''), (''temperature_2m'', JNum 31), (''note'', JStr ''n/a'')]"


definition daily_items :: "(string \<times> json) list" where
  "daily_items =
     [(''time'', JArr [JStr ''2024-05-01'', JStr ''soon'']),
      (''temperature_2m_max'', JArr [JNum 40, JStr ''hot'']),
      (''precipitation_sum'', JArr [JStr ''1.5''])]"

definition payload_conform :: json where
  "payload_conform =
     JObj [(''current'', JObj current_items), (''hourly'', JObj []), (''daily'', JObj daily_items)]"



definition conformed_daily :: frame where
  "conformed_daily =
     [(''time'', TsCol [Some 100, None]),
      (''temp_max'', NumCol [Some 40, None]),
      (''precip_total'', NumCol [Some (3 / 2), None]),
      (''location'', ObjCol [JStr ''delhi'', JStr ''delhi'']),
      (''load_timestamp'', TsCol [Some 7, Some 7])]"

section \<open>Ingestion: the validation gate and the retry policy\<close>

declare urlopen.simps [simp del]

lemma missing_keys_dict:
  "missing_keys ks (JObj d) = Inr (filter (\<lambda>k. k \<notin> fst ` set d) ks)"
  by (induction ks) (auto simp: py_in_def)

lemma ingest_accepts_iff:
  "ingest n data store = (save_raw_json n data store, None) \<longleftrightarrow> accepted data"
  by (auto simp: ingest_def accepted_def save_raw_json_def split: sum.splits)

lemma ingest_cases:
  "ingest n data store =
     (if accepted data then (store @ [(n, data)], None) else (store, snd (ingest n data store)))"
  by (auto simp: ingest_def accepted_def save_raw_json_def split: sum.splits)

lemma ingest_rejected:
  "\<not> accepted data \<Longrightarrow> fst (ingest n data store) = store \<and> snd (ingest n data store) \<noteq> None"
  by (auto simp: ingest_def accepted_def split: sum.splits)

lemma ingest_missing_daily:
  assumes "''daily'' \<notin> fst ` set d"
  shows "ingest n (JObj d) store =
          (store, Some (ValueError (''Missing top-level keys: '' @
             repr_list (filter (\<lambda>k. k \<notin> fst ` set d) required))))"
proof -
  have "''daily'' \<in> set (filter (\<lambda>k. k \<notin> fst ` set d) required)"
    using assms by (simp add: required_def)
  then have "filter (\<lambda>k. k \<notin> fst ` set d) required \<noteq> []"
    by (metis empty_iff list.set(1))
  then show ?thesis by (simp add: ingest_def validate_top_level_keys_def missing_keys_dict)
qed

lemma main_only_accepted:
  "(n, d) \<in> set (fst (main server locs store)) \<Longrightarrow> (n, d) \<in> set store \<or> accepted d"
proof (induction locs arbitrary: store)
  case Nil
  then show ?case by simp
next
  case (Cons loc locs)
  show ?case
  proof (cases "fst (fetch_raw_weather server loc)")
    case (Inl e)
    with Cons.prems show ?thesis by simp
  next
    case (Inr data)
    show ?thesis
    proof (cases "accepted data")
      case True
      then have "ingest (name loc) data store = (store @ [(name loc, data)], None)"
        using ingest_cases[of "name loc" data store] by simp
      with Inr Cons.prems have "(n, d) \<in> set (fst (main server locs (store @ [(name loc, data)])))"
        by simp
      from Cons.IH[OF this] True show ?thesis by auto
    next
      case False
      from ingest_rejected[OF False, of "name loc" store]
      obtain e where "ingest (name loc) data store = (store, Some e)"
        by (cases "ingest (name loc) data store") auto
      with Inr Cons.prems show ?thesis by simp
    qed
  qed
qed

text \<open>
  Claim C1. The loop body runs the three checks in the order top-level keys, sections,
  time arrays; the exception of the first check that fails is the one that escapes,
  whatever the later checks would have said, and the store is then left as it was. The
  payload is appended to the store exactly when all three checks return. A dict without
  the key \<^verbatim>\<open>daily\<close> is rejected by the first check, with the message that lists the missing
  keys. Over a whole run of \<^verbatim>\<open>main\<close>, every file in the store that was not there before
  holds a payload that passes all three checks.
\<close>

theorem ingest_validation_gate:
  "(ingest n data store = (save_raw_json n data store, None) \<longleftrightarrow>
      validate_top_level_keys data = Inr () \<and> validate_sections data = Inr ()
        \<and> validate_non_empty_arrays data = Inr ())
   \<and> (snd (ingest n data store) \<noteq> None \<longrightarrow> fst (ingest n data store) = store)
   \<and> (validate_top_level_keys data = Inl e \<longrightarrow> ingest n data store = (store, Some e))
   \<and> (validate_top_level_keys data = Inr () \<and> validate_sections data = Inl e
        \<longrightarrow> ingest n data store = (store, Some e))
   \<and> (validate_top_level_keys data = Inr () \<and> validate_sections data = Inr ()
        \<and> validate_non_empty_arrays data = Inl e
        \<longrightarrow> ingest n data store = (store, Some e))
   \<and> (''daily'' \<notin> fst ` set d \<longrightarrow>
        (\<exists>missing. ''daily'' \<in> set missing \<and>
           ingest n (JObj d) store =
             (store, Some (ValueError (''Missing top-level keys: '' @ repr_list missing)))))
   \<and> (\<forall>(m, p) \<in> set (fst (main server locs store)).
        (m, p) \<in> set store \<or>
        (validate_top_level_keys p = Inr () \<and> validate_sections p = Inr ()
           \<and> validate_non_empty_arrays p = Inr ()))"
proof (intro conjI impI)
  show "ingest n data store = (save_raw_json n data store, None) \<longleftrightarrow>
      validate_top_level_keys data = Inr () \<and> validate_sections data = Inr ()
        \<and> validate_non_empty_arrays data = Inr ()"
    using ingest_accepts_iff[of n data store] by (simp add: accepted_def)
  show "fst (ingest n data store) = store" if "snd (ingest n data store) \<noteq> None"
    using that ingest_cases[of n data store] by (auto split: if_splits)
  show "ingest n data store = (store, Some e)" if "validate_top_level_keys data = Inl e"
    using that by (simp add: ingest_def)
  show "ingest n data store = (store, Some e)"
    if "validate_top_level_keys data = Inr () \<and> validate_sections data = Inl e"
    using that by (simp add: ingest_def)
  show "ingest n data store = (store, Some e)"
    if "validate_top_level_keys data = Inr () \<and> validate_sections data = Inr ()
        \<and> validate_non_empty_arrays data = Inl e"
    using that by (simp add: ingest_def)
  show "\<exists>missing. ''daily'' \<in> set missing \<and>
           ingest n (JObj d) store =
             (store, Some (ValueError (''Missing top-level keys: '' @ repr_list missing)))"
    if "''daily'' \<notin> fst ` set d"
  proof (intro exI conjI)
    show "ingest n (JObj d) store = (store, Some (ValueError (''Missing top-level keys: '' @
             repr_list (filter (\<lambda>k. k \<notin> fst ` set d) required))))"
      by (rule ingest_missing_daily[OF that])
    show "''daily'' \<in> set (filter (\<lambda>k. k \<notin> fst ` set d) required)"
      using that by (simp add: required_def)
  qed
  show "\<forall>(m, p) \<in> set (fst (main server locs store)).
        (m, p) \<in> set store \<or>
        (validate_top_level_keys p = Inr () \<and> validate_sections p = Inr ()
           \<and> validate_non_empty_arrays p = Inr ())"
    using main_only_accepted[of _ _ server locs store] by (auto simp: accepted_def)
qed

lemma payload_ok_keys: "validate_top_level_keys payload_ok = Inr ()"
  by (simp add: validate_top_level_keys_def payload_ok_def missing_keys_dict required_def)
lemma payload_ok_sections: "validate_sections payload_ok = Inr ()"
  by (simp add: validate_sections_def payload_ok_def py_get_def dict_get_def)
lemma payload_ok_arrays: "validate_non_empty_arrays payload_ok = Inr ()"
  by (simp add: validate_non_empty_arrays_def section_time_def payload_ok_def py_get_def dict_get_def)

lemma payload_empty_current_keys: "validate_top_level_keys payload_empty_current = Inr ()"
  by (simp add: validate_top_level_keys_def payload_empty_current_def missing_keys_dict required_def)
lemma payload_empty_current_sections: "validate_sections payload_empty_current = Inl (ValueError ''Missing or empty 'current' section.'')"
  by (simp add: validate_sections_def payload_empty_current_def py_get_def dict_get_def)
lemma payload_empty_times_keys: "validate_top_level_keys payload_empty_times = Inr ()"
  by (simp add: validate_top_level_keys_def payload_empty_times_def missing_keys_dict required_def)
lemma payload_empty_times_sections: "validate_sections payload_empty_times = Inr ()"
  by (simp add: validate_sections_def payload_empty_times_def py_get_def dict_get_def)
lemma payload_empty_times_arrays: "validate_non_empty_arrays payload_empty_times = Inl (ValueError ''Hourly time array is empty.'')"
  by (simp add: validate_non_empty_arrays_def section_time_def payload_empty_times_def py_get_def dict_get_def)

theorem ingest_validation_gate_witness:
  "ingest ''Delhi'' payload_ok [] = ([(''Delhi'', payload_ok)], None)
   \<and> ''daily'' \<notin> fst ` set items_no_daily
   \<and> (\<exists>missing. ''daily'' \<in> set missing \<and> ingest ''Delhi'' (JObj items_no_daily) [] =
         ([], Some (ValueError (''Missing top-level keys: '' @ repr_list missing))))
   \<and> validate_non_empty_arrays payload_empty_current = Inl (ValueError ''Hourly time array is empty.'')
   \<and> ingest ''Delhi'' payload_empty_current [] =
         ([], Some (ValueError ''Missing or empty 'current' section.''))
   \<and> ingest ''Delhi'' payload_empty_times [] = ([], Some (ValueError ''Hourly time array is empty.''))
   \<and> fst (main (\<lambda>loc k. \<lparr>status_code = 200, body = payload_ok\<rparr>) [delhi] []) = [(''Delhi'', payload_ok)]"
proof -
  note g = ingest_validation_gate
  have a: "ingest ''Delhi'' payload_ok [] = ([(''Delhi'', payload_ok)], None)"
    using g[of "''Delhi''" payload_ok "[]"] payload_ok_keys payload_ok_sections payload_ok_arrays by (simp add: save_raw_json_def)
  have b: "''daily'' \<notin> fst ` set items_no_daily" by (simp add: items_no_daily_def)
  have c: "\<exists>missing. ''daily'' \<in> set missing \<and> ingest ''Delhi'' (JObj items_no_daily) [] =
         ([], Some (ValueError (''Missing top-level keys: '' @ repr_list missing)))"
    using g[of "''Delhi''" _ "[]" _ items_no_daily] b by blast
  have d0: "validate_non_empty_arrays payload_empty_current = Inl (ValueError ''Hourly time array is empty.'')"
    by (simp add: validate_non_empty_arrays_def section_time_def payload_empty_current_def py_get_def dict_get_def)
  have d: "ingest ''Delhi'' payload_empty_current [] =
         ([], Some (ValueError ''Missing or empty 'current' section.''))"
    using g[of "''Delhi''" payload_empty_current "[]" "ValueError ''Missing or empty 'current' section.''"]
      payload_empty_current_keys payload_empty_current_sections by blast
  have e: "ingest ''Delhi'' payload_empty_times [] = ([], Some (ValueError ''Hourly time array is empty.''))"
    using g[of "''Delhi''" payload_empty_times "[]" "ValueError ''Hourly time array is empty.''"]
      payload_empty_times_keys payload_empty_times_sections payload_empty_times_arrays by blast
  have f: "fst (main (\<lambda>loc k. \<lparr>status_code = 200, body = payload_ok\<rparr>) [delhi] []) = [(''Delhi'', payload_ok)]"
    using a by (simp add: fetch_raw_weather_def session_get_def retry_strategy_def urlopen.simps delhi_def)
  from a b c d0 d e f show ?thesis by blast
qed








section \<open>Tables: reading and writing columns\<close>

lemma map_of_setitem: "map_of (setitem df k c) = (map_of df)(k \<mapsto> c)"
  by (induction df) (auto simp: fun_eq_iff)

lemma getitem_setitem: "getitem (setitem df k c) k' = (if k' = k then Inr c else getitem df k')"
  by (simp add: getitem_def map_of_setitem)

lemma columns_setitem:
  "columns (setitem df k c) = (if k \<in> set (columns df) then columns df else columns df @ [k])"
  by (induction df) (force simp: columns_def)+

lemma getitem_set_now:
  "getitem (set_now df k now) k' =
     (if k' = k then Inr (TsCol (replicate (nrows df) (Some now))) else getitem df k')"
  by (simp add: set_now_def getitem_setitem)

lemma getitem_set_str:
  "getitem (set_str df k s) k' =
     (if k' = k then Inr (ObjCol (replicate (nrows df) (JStr s))) else getitem df k')"
  by (simp add: set_str_def getitem_setitem)

section \<open>Curation: alerts\<close>

lemma metric_NumCol: "getitem df k = Inr (NumCol xs) \<Longrightarrow> metric df k = Inr xs"
  by (simp add: metric_def)

lemma build_alerts_eq:
  assumes "getitem df ''time'' = Inr time" and "getitem df ''location'' = Inr loc"
    and "getitem df ''temp_max'' = Inr (NumCol tmax)"
    and "getitem df ''wind_speed_max'' = Inr (NumCol wind)"
    and "getitem df ''precip_total'' = Inr (NumCol precip)"
    and "col_len time \<noteq> 0"
  shows "build_alerts now df = Inr
     [(''date'', time), (''location'', loc),
      (''heat_alert_flag'', NumCol (flag tmax 35)),
      (''storm_flag'', NumCol (flag wind 50)),
      (''rain_alert_flag'', NumCol (flag precip 20)),
      (''risk_level'', ObjCol (map (\<lambda>row. JStr (risk_level row)) (zip (flag wind 50) (flag precip 20)))),
      (''load_timestamp'', TsCol (replicate (col_len time) (Some now)))]"
  using assms
  by (simp add: build_alerts_def metric_NumCol set_now_def nrows_def)

lemma flag_nth: "i < length xs \<Longrightarrow> flag xs c ! i = Some (if gt (xs ! i) c then 1 else 0)"
  by (simp add: flag_def)

lemma length_flag: "length (flag xs c) = length xs"
  by (simp add: flag_def)

text \<open>
  Claim C5. On a daily table with rows, \<^verbatim>\<open>build_alerts\<close> sets, row by row,
  \<open>heat_alert_flag\<close> to 1 iff \<open>temp_max\<close> exceeds 35, \<open>storm_flag\<close> to 1 iff
  \<open>wind_speed_max\<close> exceeds 50, \<open>rain_alert_flag\<close> to 1 iff \<open>precip_total\<close> exceeds 20,
  and \<open>risk_level\<close> to \<open>high\<close> when the storm flag is set, else \<open>moderate\<close> when the rain
  flag is set, else \<open>low\<close>: the heat flag does not enter. Wind 60, precipitation 5 and
  maximum temperature 10 give storm flag 1, rain flag 0 and risk \<open>high\<close> (the witness).
\<close>

theorem alerts_flags_and_risk:
  assumes "getitem df ''time'' = Inr time" and "getitem df ''location'' = Inr loc"
    and "getitem df ''temp_max'' = Inr (NumCol tmax)"
    and "getitem df ''wind_speed_max'' = Inr (NumCol wind)"
    and "getitem df ''precip_total'' = Inr (NumCol precip)"
    and "col_len time = n" and "length tmax = n" and "length wind = n" and "length precip = n"
    and "0 < n"
  shows "\<exists>alerts heat storm rain risk.
     build_alerts now df = Inr alerts
     \<and> getitem alerts ''date'' = Inr time \<and> getitem alerts ''location'' = Inr loc
     \<and> getitem alerts ''heat_alert_flag'' = Inr (NumCol heat)
     \<and> getitem alerts ''storm_flag'' = Inr (NumCol storm)
     \<and> getitem alerts ''rain_alert_flag'' = Inr (NumCol rain)
     \<and> getitem alerts ''risk_level'' = Inr (ObjCol risk)
     \<and> length heat = n \<and> length storm = n \<and> length rain = n \<and> length risk = n
     \<and> (\<forall>i<n.
           heat ! i = Some (if \<exists>v. tmax ! i = Some v \<and> v > 35 then 1 else 0)
         \<and> storm ! i = Some (if \<exists>v. wind ! i = Some v \<and> v > 50 then 1 else 0)
         \<and> rain ! i = Some (if \<exists>v. precip ! i = Some v \<and> v > 20 then 1 else 0)
         \<and> risk ! i = JStr (if storm ! i = Some 1 then ''high''
                            else if rain ! i = Some 1 then ''moderate'' else ''low''))"
proof -
  have gt_ex: "\<And>x c. gt x c \<longleftrightarrow> (\<exists>v. x = Some v \<and> v > c)"
    by (simp add: gt_def split: option.splits)
  from assms have ne: "col_len time \<noteq> 0" by simp
  note eq = build_alerts_eq[OF assms(1-5) ne, of now]
  show ?thesis
    apply (rule exI[of _ "[(''date'', time), (''location'', loc),
      (''heat_alert_flag'', NumCol (flag tmax 35)),
      (''storm_flag'', NumCol (flag wind 50)),
      (''rain_alert_flag'', NumCol (flag precip 20)),
      (''risk_level'', ObjCol (map (\<lambda>row. JStr (risk_level row)) (zip (flag wind 50) (flag precip 20)))),
      (''load_timestamp'', TsCol (replicate (col_len time) (Some now)))]"])
    apply (rule exI[of _ "flag tmax 35"])
    apply (rule exI[of _ "flag wind 50"])
    apply (rule exI[of _ "flag precip 20"])
    apply (rule exI[of _ "map (\<lambda>row. JStr (risk_level row)) (zip (flag wind 50) (flag precip 20))"])
    using assms(6-10)
    apply (simp add: eq getitem_def length_flag flag_nth risk_level_def gt_ex)
    done
qed

section \<open>Curation: summary and features\<close>

lemma str_keys_length: "str_keys ls = Inr ss \<Longrightarrow> length ss = length ls"
  by (induction ls arbitrary: ss) (auto split: sum.splits json.splits)


lemma row_keys_length: "length ts = n \<Longrightarrow> length ss = n \<Longrightarrow> length (row_keys ts ss) = n"
  by (simp add: row_keys_def)




lemma zip_as_map:
  "length xs = length ys \<Longrightarrow> zip xs ys = map (\<lambda>i. (xs ! i, ys ! i)) [0..<length xs]"
  by (rule nth_equalityI) simp_all

lemma group_values_rows:
  assumes "length keys = n" and "length xs = n"
  shows "group_values keys xs g = map ((!) xs) (filter (\<lambda>i. keys ! i = Some g) [0..<n])"
proof -
  have "zip keys xs = map (\<lambda>i. (keys ! i, xs ! i)) [0..<n]"
    using zip_as_map[of keys xs] assms by simp
  then show ?thesis
    by (simp add: group_values_def filter_map comp_def)
qed





lemma build_daily_summary_eq:
  assumes "getitem df ''time'' = Inr (TsCol ts)" and "getitem df ''location'' = Inr (ObjCol ls)"
    and "str_keys ls = Inr ss"
    and "getitem df ''temp_max'' = Inr (NumCol tmax)"
    and "getitem df ''temp_min'' = Inr (NumCol tmin)"
    and "getitem df ''precip_total'' = Inr (NumCol precip)"
    and "getitem df ''wind_speed_max'' = Inr (NumCol wind)"
  shows "build_daily_summary now df = Inr (summary_of now (row_keys ts ss) tmax tmin precip wind)"
  using assms
  by (simp add: build_daily_summary_def metric_NumCol set_now_def nrows_def Let_def summary_of_def)










lemma prefix_columns_setitem: "prefix (columns df) (columns (setitem df k c))"
  by (simp add: columns_setitem)




lemma storm_day_alerts:
  "build_alerts 9 storm_day = Inr
     [(''date'', TsCol [Some 100]),
      (''location'', ObjCol [JStr ''delhi'']),
      (''heat_alert_flag'', NumCol [Some 0]),
      (''storm_flag'', NumCol [Some 1]),
      (''rain_alert_flag'', NumCol [Some 0]),
      (''risk_level'', ObjCol [JStr ''high'']),
      (''load_timestamp'', TsCol [Some 9])]"
  by (simp add: build_alerts_def storm_day_def getitem_def metric_def flag_def gt_def risk_level_def
      set_now_def nrows_def)

theorem alerts_flags_and_risk_witness:
  "getitem storm_day ''time'' = Inr (TsCol [Some 100])
   \<and> getitem storm_day ''location'' = Inr (ObjCol [JStr ''delhi''])
   \<and> getitem storm_day ''temp_max'' = Inr (NumCol [Some 10])
   \<and> getitem storm_day ''wind_speed_max'' = Inr (NumCol [Some 60])
   \<and> getitem storm_day ''precip_total'' = Inr (NumCol [Some 5])
   \<and> (\<exists>alerts. build_alerts 9 storm_day = Inr alerts
         \<and> getitem alerts ''heat_alert_flag'' = Inr (NumCol [Some 0])
         \<and> getitem alerts ''storm_flag'' = Inr (NumCol [Some 1])
         \<and> getitem alerts ''rain_alert_flag'' = Inr (NumCol [Some 0])
         \<and> getitem alerts ''risk_level'' = Inr (ObjCol [JStr ''high'']))"
proof -
  have h1: "getitem storm_day ''time'' = Inr (TsCol [Some 100])"
    and h2: "getitem storm_day ''location'' = Inr (ObjCol [JStr ''delhi''])"
    and h3: "getitem storm_day ''temp_max'' = Inr (NumCol [Some 10])"
    and h4: "getitem storm_day ''wind_speed_max'' = Inr (NumCol [Some 60])"
    and h5: "getitem storm_day ''precip_total'' = Inr (NumCol [Some 5])"
    by (simp_all add: storm_day_def getitem_def)
  from alerts_flags_and_risk[OF h1 h2 h3 h4 h5, of 1 9]
  obtain alerts where a: "build_alerts 9 storm_day = Inr alerts"
    by auto
  with storm_day_alerts have "getitem alerts ''heat_alert_flag'' = Inr (NumCol [Some 0])
         \<and> getitem alerts ''storm_flag'' = Inr (NumCol [Some 1])
         \<and> getitem alerts ''rain_alert_flag'' = Inr (NumCol [Some 0])
         \<and> getitem alerts ''risk_level'' = Inr (ObjCol [JStr ''high''])"
    by (auto simp: getitem_def)
  with a h1 h2 h3 h4 h5 show ?thesis by blast
qed




section \<open>Curation: the run over the files, and missing values\<close>

lemma iloc0_empty: "col_len c = 0 \<Longrightarrow> iloc0 c = Inl IndexError"
  by (cases c) simp_all

text \<open>
  Claim C7, as amended. When there is no conformed daily file, \<^verbatim>\<open>process_gold\<close> writes
  nothing and raises nothing. The stage has no check for a table without rows: on such a
  table the lookup of the location (\<^verbatim>\<open>.iloc[0]\<close>) raises \<open>IndexError\<close> before anything is
  built or written for it.
\<close>

theorem curation_skips_without_files:
  "process_gold now [] lk = (lk, None)
   \<and> (getitem df ''location'' = Inr c \<and> col_len c = 0
        \<longrightarrow> process_gold now (df # files) lk = (lk, Some IndexError))"
  by (simp add: process_gold_def iloc0_empty)

text \<open>A daily table without rows is not passed over in silence: the run ends in an error.\<close>

theorem curation_empty_table_counterexample:
  "\<not> process_gold 9 [empty_daily] [] = ([], None)"
  by (simp add: process_gold_def empty_daily_def getitem_def)

theorem curation_skips_without_files_witness:
  "process_gold 9 [] [] = ([], None)
   \<and> getitem empty_daily ''location'' = Inr (ObjCol [])
   \<and> col_len (ObjCol []) = 0
   \<and> process_gold 9 [empty_daily] [] = ([], Some IndexError)"
proof -
  have h: "getitem empty_daily ''location'' = Inr (ObjCol [])"
    by (simp add: empty_daily_def getitem_def)
  have l: "col_len (ObjCol []) = 0" by simp
  from curation_skips_without_files[of 9 "[]" empty_daily "ObjCol []" "[]"] h l
  show ?thesis by blast
qed

lemma present_all_None: "(\<forall>x \<in> set xs. x = None) \<Longrightarrow> present xs = []"
  by (induction xs) (auto simp: present_def)

lemma agg_mean_all_None: "(\<forall>x \<in> set xs. x = None) \<Longrightarrow> agg_mean xs = None"
  by (simp add: agg_mean_def present_all_None)

text \<open>
  Claim C10. A missing metric value meets no threshold: in \<^verbatim>\<open>build_alerts\<close> a row whose
  \<open>temp_max\<close> is missing has heat flag 0, one whose \<open>wind_speed_max\<close> is missing has storm
  flag 0, one whose \<open>precip_total\<close> is missing has rain flag 0, and a row with both wind
  and precipitation missing has risk \<open>low\<close>; in \<^verbatim>\<open>build_daily_summary\<close> a group whose
  \<open>temp_max\<close> values are all missing has a missing \<open>avg_temp\<close>, and a group with a missing
  \<open>avg_temp\<close> is labelled \<open>moderate\<close>.
\<close>

theorem nulls_never_meet_thresholds:
  assumes "getitem df ''time'' = Inr (TsCol ts)" and "getitem df ''location'' = Inr (ObjCol ls)"
    and "str_keys ls = Inr ss"
    and "getitem df ''temp_max'' = Inr (NumCol tmax)"
    and "getitem df ''temp_min'' = Inr (NumCol tmin)"
    and "getitem df ''precip_total'' = Inr (NumCol precip)"
    and "getitem df ''wind_speed_max'' = Inr (NumCol wind)"
    and "length ts = n" and "length ls = n" and "length tmax = n" and "length tmin = n"
    and "length precip = n" and "length wind = n" and "0 < n"
  shows "\<exists>alerts heat storm rain risk summary avg lbl.
       build_alerts now df = Inr alerts
     \<and> getitem alerts ''heat_alert_flag'' = Inr (NumCol heat)
     \<and> getitem alerts ''storm_flag'' = Inr (NumCol storm)
     \<and> getitem alerts ''rain_alert_flag'' = Inr (NumCol rain)
     \<and> getitem alerts ''risk_level'' = Inr (ObjCol risk)
     \<and> (\<forall>i<n. (tmax ! i = None \<longrightarrow> heat ! i = Some 0)
            \<and> (wind ! i = None \<longrightarrow> storm ! i = Some 0)
            \<and> (precip ! i = None \<longrightarrow> rain ! i = Some 0)
            \<and> (wind ! i = None \<and> precip ! i = None \<longrightarrow> risk ! i = JStr ''low''))
     \<and> build_daily_summary now df = Inr summary
     \<and> getitem summary ''avg_temp'' = Inr (NumCol avg)
     \<and> getitem summary ''weather_label'' = Inr (ObjCol lbl)
     \<and> length avg = length (group_keys (row_keys ts ss))
     \<and> length lbl = length avg
     \<and> (\<forall>j<length avg. avg ! j = None \<longrightarrow> lbl ! j = JStr ''moderate'')
     \<and> (\<forall>j<length avg.
           (\<forall>i<n. row_keys ts ss ! i = Some (group_keys (row_keys ts ss) ! j) \<longrightarrow> tmax ! i = None)
            \<longrightarrow> avg ! j = None)"
proof -
  let ?keys = "row_keys ts ss"
  let ?gs = "group_keys ?keys"
  let ?avg = "map (\<lambda>g. agg_mean (group_values ?keys tmax g)) ?gs"
  let ?lbl = "map (\<lambda>x. JStr (weather_label x)) ?avg"
  let ?risk = "map (\<lambda>row. JStr (risk_level row)) (zip (flag wind 50) (flag precip 20))"
  have ne: "col_len (TsCol ts) \<noteq> 0" using assms(8,14) by simp
  note a = build_alerts_eq[OF assms(1,2,4,7,6) ne, of now]
  note s = build_daily_summary_eq[OF assms(1-7), of now]
  have lss: "length ss = n" using str_keys_length[OF assms(3)] assms(9) by simp
  have lk: "length ?keys = n" using row_keys_length[OF assms(8) lss] .
  have rows: "\<forall>i<n. (tmax ! i = None \<longrightarrow> flag tmax 35 ! i = Some 0)
            \<and> (wind ! i = None \<longrightarrow> flag wind 50 ! i = Some 0)
            \<and> (precip ! i = None \<longrightarrow> flag precip 20 ! i = Some 0)
            \<and> (wind ! i = None \<and> precip ! i = None \<longrightarrow> ?risk ! i = JStr ''low'')"
    using assms(10-13)
    by (simp add: flag_nth length_flag risk_level_def gt_def)
  have lab: "\<forall>j<length ?avg. ?avg ! j = None \<longrightarrow> ?lbl ! j = JStr ''moderate''"
    by (simp add: weather_label_def gt_def lt_def)
  have nul: "\<forall>j<length ?avg.
           (\<forall>i<n. ?keys ! i = Some (?gs ! j) \<longrightarrow> tmax ! i = None) \<longrightarrow> ?avg ! j = None"
  proof (intro allI impI)
    fix j assume j: "j < length ?avg"
      and all: "\<forall>i<n. ?keys ! i = Some (?gs ! j) \<longrightarrow> tmax ! i = None"
    have "group_values ?keys tmax (?gs ! j) =
        map ((!) tmax) (filter (\<lambda>i. ?keys ! i = Some (?gs ! j)) [0..<n])"
      by (rule group_values_rows[OF lk assms(10)])
    moreover have "\<forall>x \<in> set (map ((!) tmax) (filter (\<lambda>i. ?keys ! i = Some (?gs ! j)) [0..<n])). x = None"
      using all by auto
    ultimately have "agg_mean (group_values ?keys tmax (?gs ! j)) = None"
      by (simp only: agg_mean_all_None)
    with j show "?avg ! j = None" by simp
  qed
  have g1: "getitem (summary_of now ?keys tmax tmin precip wind) ''avg_temp'' = Inr (NumCol ?avg)"
    and g2: "getitem (summary_of now ?keys tmax tmin precip wind) ''weather_label'' = Inr (ObjCol ?lbl)"
    by (simp_all add: summary_of_def getitem_def)
  show ?thesis
    apply (rule exI[of _ "[(''date'', TsCol ts), (''location'', ObjCol ls),
      (''heat_alert_flag'', NumCol (flag tmax 35)),
      (''storm_flag'', NumCol (flag wind 50)),
      (''rain_alert_flag'', NumCol (flag precip 20)),
      (''risk_level'', ObjCol ?risk),
      (''load_timestamp'', TsCol (replicate (col_len (TsCol ts)) (Some now)))]"])
    apply (rule exI[of _ "flag tmax 35"])
    apply (rule exI[of _ "flag wind 50"])
    apply (rule exI[of _ "flag precip 20"])
    apply (rule exI[of _ ?risk])
    apply (rule exI[of _ "summary_of now ?keys tmax tmin precip wind"])
    apply (rule exI[of _ ?avg])
    apply (rule exI[of _ ?lbl])
    apply (intro conjI)
                apply (rule a)
               apply (simp add: getitem_def)
              apply (simp add: getitem_def)
             apply (simp add: getitem_def)
            apply (simp add: getitem_def)
           apply (rule rows)
          apply (rule s)
         apply (rule g1)
        apply (rule g2)
       apply simp
      apply simp
     apply (rule lab)
    apply (rule nul)
    done
qed

lemma null_day_alerts:
  "build_alerts 9 null_day = Inr
     [(''date'', TsCol [Some 100]),
      (''location'', ObjCol [JStr ''delhi'']),
      (''heat_alert_flag'', NumCol [Some 0]),
      (''storm_flag'', NumCol [Some 0]),
      (''rain_alert_flag'', NumCol [Some 0]),
      (''risk_level'', ObjCol [JStr ''low'']),
      (''load_timestamp'', TsCol [Some 9])]"
  by (simp add: build_alerts_def null_day_def getitem_def metric_def flag_def gt_def risk_level_def
      set_now_def nrows_def)

lemma null_day_summary:
  "build_daily_summary 9 null_day = Inr
     [(''time'', TsCol [Some 100]),
      (''location'', ObjCol [JStr ''delhi'']),
      (''avg_temp'', NumCol [None]),
      (''max_temp'', NumCol [None]),
      (''min_temp'', NumCol [None]),
      (''total_precip'', NumCol [Some 0]),
      (''max_wind_speed'', NumCol [None]),
      (''weather_label'', ObjCol [JStr ''moderate'']),
      (''load_timestamp'', TsCol [Some 9])]"
  by (simp add: build_daily_summary_def null_day_def getitem_def metric_def row_keys_def row_key_def
      group_keys_def group_values_def agg_mean_def agg_max_def agg_min_def agg_sum_def present_def
      weather_label_def gt_def lt_def set_now_def nrows_def Let_def)

theorem nulls_never_meet_thresholds_witness:
  "getitem null_day ''time'' = Inr (TsCol [Some 100])
   \<and> getitem null_day ''location'' = Inr (ObjCol [JStr ''delhi''])
   \<and> str_keys [JStr ''delhi''] = Inr [Some ''delhi'']
   \<and> getitem null_day ''temp_max'' = Inr (NumCol [None])
   \<and> getitem null_day ''temp_min'' = Inr (NumCol [None])
   \<and> getitem null_day ''precip_total'' = Inr (NumCol [None])
   \<and> getitem null_day ''wind_speed_max'' = Inr (NumCol [None])
   \<and> (\<exists>alerts summary. build_alerts 9 null_day = Inr alerts
         \<and> getitem alerts ''heat_alert_flag'' = Inr (NumCol [Some 0])
         \<and> getitem alerts ''storm_flag'' = Inr (NumCol [Some 0])
         \<and> getitem alerts ''rain_alert_flag'' = Inr (NumCol [Some 0])
         \<and> getitem alerts ''risk_level'' = Inr (ObjCol [JStr ''low''])
         \<and> build_daily_summary 9 null_day = Inr summary
         \<and> getitem summary ''avg_temp'' = Inr (NumCol [None])
         \<and> getitem summary ''weather_label'' = Inr (ObjCol [JStr ''moderate'']))"
proof -
  have h1: "getitem null_day ''time'' = Inr (TsCol [Some 100])"
    and h2: "getitem null_day ''location'' = Inr (ObjCol [JStr ''delhi''])"
    and h4: "getitem null_day ''temp_max'' = Inr (NumCol [None])"
    and h5: "getitem null_day ''temp_min'' = Inr (NumCol [None])"
    and h6: "getitem null_day ''precip_total'' = Inr (NumCol [None])"
    and h7: "getitem null_day ''wind_speed_max'' = Inr (NumCol [None])"
    by (simp_all add: null_day_def getitem_def)
  have h3: "str_keys [JStr ''delhi''] = Inr [Some ''delhi'']" by simp
  from nulls_never_meet_thresholds[OF h1 h2 h3 h4 h5 h6 h7, of 1 9]
  obtain alerts summary where a: "build_alerts 9 null_day = Inr alerts"
    and s: "build_daily_summary 9 null_day = Inr summary"
    by auto
  from a null_day_alerts have "getitem alerts ''heat_alert_flag'' = Inr (NumCol [Some 0])
         \<and> getitem alerts ''storm_flag'' = Inr (NumCol [Some 0])
         \<and> getitem alerts ''rain_alert_flag'' = Inr (NumCol [Some 0])
         \<and> getitem alerts ''risk_level'' = Inr (ObjCol [JStr ''low''])"
    by (auto simp: getitem_def)
  moreover from s null_day_summary have "getitem summary ''avg_temp'' = Inr (NumCol [None])
         \<and> getitem summary ''weather_label'' = Inr (ObjCol [JStr ''moderate''])"
    by (auto simp: getitem_def)
  ultimately show ?thesis using a s h1 h2 h3 h4 h5 h6 h7 by blast
qed

section \<open>Conformance: coercion, rename and metadata\<close>

lemma getitem_Some: "map_of df k = Some c \<Longrightarrow> getitem df k = Inr c"
  by (simp add: getitem_def)

lemma getitem_member:
  "distinct (columns df) \<Longrightarrow> (k, c) \<in> set df \<Longrightarrow> getitem df k = Inr c"
  by (simp add: getitem_def columns_def)

lemma columns_setitem_present:
  "k \<in> set (columns df) \<Longrightarrow> columns (setitem df k c) = columns df"
  by (simp add: columns_setitem)

lemma filter_absent: "x \<notin> set xs \<Longrightarrow> filter (\<lambda>k. k = x) xs = []"
  by (induction xs) auto

lemma count_distinct: "distinct xs \<Longrightarrow> length (filter (\<lambda>k. k = x) xs) \<le> Suc 0"
  by (induction xs) (auto simp: filter_absent)

lemma map_of_in_columns: "k \<in> set (columns df) \<Longrightarrow> \<exists>c. map_of df k = Some c"
  by (metis columns_def map_of_eq_None_iff not_Some_eq set_map)

lemma numeric_loop_ok:
  "distinct (columns df) \<Longrightarrow> set cols \<subseteq> set (columns df) \<Longrightarrow> distinct cols \<Longrightarrow>
   \<exists>df'. numeric_loop P cols df = Inr df' \<and> columns df' = columns df
     \<and> (\<forall>k. map_of df' k =
           (if k \<in> set cols \<and> k \<noteq> ''time'' then map_option (to_numeric_coerce P) (map_of df k)
            else map_of df k))"
proof (induction cols arbitrary: df)
  case Nil
  then show ?case by simp
next
  case (Cons col cols)
  show ?case
  proof (cases "col = ''time''")
    case True
    from Cons.prems have "set cols \<subseteq> set (columns df)" "distinct cols" "col \<notin> set cols" by auto
    from Cons.IH[OF Cons.prems(1) this(1,2)] True \<open>col \<notin> set cols\<close>
    show ?thesis by auto
  next
    case False
    from Cons.prems have incol: "col \<in> set (columns df)" and sub: "set cols \<subseteq> set (columns df)"
      and dc: "distinct cols" and notin: "col \<notin> set cols" by auto
    from map_of_in_columns[OF incol] obtain c where c: "map_of df col = Some c" by blast
    let ?df1 = "setitem df col (to_numeric_coerce P c)"
    have cols1: "columns ?df1 = columns df" by (rule columns_setitem_present[OF incol])
    have cnt: "\<not> length (filter (\<lambda>k. k = col) (columns df)) > 1"
      using count_distinct[OF Cons.prems(1), of col] by simp
    have step: "numeric_loop P (col # cols) df = numeric_loop P cols ?df1"
      using False cnt c by (simp add: getitem_def)
    from Cons.IH[of ?df1] cols1 Cons.prems(1) sub dc
    obtain df' where r: "numeric_loop P cols ?df1 = Inr df'" and cs: "columns df' = columns ?df1"
      and m: "\<forall>k. map_of df' k =
           (if k \<in> set cols \<and> k \<noteq> ''time'' then map_option (to_numeric_coerce P) (map_of ?df1 k)
            else map_of ?df1 k)"
      by auto
    have "\<forall>k. map_of df' k =
           (if k \<in> set (col # cols) \<and> k \<noteq> ''time'' then map_option (to_numeric_coerce P) (map_of df k)
            else map_of df k)"
      using m notin c False by (auto simp: map_of_setitem)
    with r cs cols1 step show ?thesis by auto
  qed
qed


lemma convert_time_columns: "columns (convert_time P df) = columns df"
proof (cases "map_of df ''time''")
  case None
  then show ?thesis by (simp add: convert_time_def)
next
  case (Some c)
  then have "''time'' \<in> set (columns df)"
    by (metis columns_def map_of_eq_None_iff option.distinct(1) set_map)
  with Some show ?thesis by (simp add: convert_time_def columns_setitem_present)
qed

lemma convert_time_map_of:
  "map_of (convert_time P df) k =
     (if k = ''time'' then map_option (to_datetime_coerce P) (map_of df k) else map_of df k)"
  by (cases "map_of df ''time''") (auto simp: convert_time_def map_of_setitem)

lemma series_items_fst: "series_items kvs = Inr cols \<Longrightarrow> map fst cols = map fst kvs"
proof (induction kvs arbitrary: cols rule: series_items.induct)
  case 1
  then show ?case by simp
next
  case (2 k xs kvs)
  then show ?case by (auto split: sum.splits)
qed simp_all

lemma series_items_values:
  "series_items kvs = Inr cols \<Longrightarrow> kvs = map (\<lambda>(k, xs). (k, JArr xs)) cols"
proof (induction kvs arbitrary: cols rule: series_items.induct)
  case 1
  then show ?case by simp
next
  case (2 k xs kvs)
  then show ?case by (auto split: sum.splits)
qed simp_all

lemma longest_ge: "(k, xs) \<in> set cols \<Longrightarrow> length xs \<le> longest cols"
  by (induction cols) (auto simp: longest_def)

lemma length_pad: "length xs \<le> n \<Longrightarrow> length (pad n xs) = n"
  by (simp add: pad_def)

lemma nrows_hd: "df = (k, c) # rest \<Longrightarrow> nrows df = col_len c"
  by (simp add: nrows_def)

lemma pipeline_ok:
  assumes "distinct (columns df0)"
  shows "\<exists>df2. numeric_loop P (columns (convert_time P df0)) (convert_time P df0) = Inr df2
     \<and> columns df2 = columns df0
     \<and> (\<forall>k c. (k, c) \<in> set df0 \<longrightarrow>
           map_of df2 k = Some (if k = ''time'' then to_datetime_coerce P c else to_numeric_coerce P c))"
proof -
  let ?df1 = "convert_time P df0"
  have c1: "columns ?df1 = columns df0" by (rule convert_time_columns)
  with assms have d1: "distinct (columns ?df1)" by simp
  from numeric_loop_ok[OF d1, of "columns ?df1" P] d1
  obtain df2 where r: "numeric_loop P (columns ?df1) ?df1 = Inr df2"
    and cs: "columns df2 = columns ?df1"
    and m: "\<forall>k. map_of df2 k =
           (if k \<in> set (columns ?df1) \<and> k \<noteq> ''time''
            then map_option (to_numeric_coerce P) (map_of ?df1 k) else map_of ?df1 k)"
    by auto
  have "\<forall>k c. (k, c) \<in> set df0 \<longrightarrow>
           map_of df2 k = Some (if k = ''time'' then to_datetime_coerce P c else to_numeric_coerce P c)"
  proof (intro allI impI)
    fix k c assume kc: "(k, c) \<in> set df0"
    with assms have mo: "map_of df0 k = Some c" by (simp add: columns_def)
    from kc have kin: "k \<in> set (columns ?df1)" unfolding c1 by (force simp: columns_def)
    show "map_of df2 k = Some (if k = ''time'' then to_datetime_coerce P c else to_numeric_coerce P c)"
      using m kin mo by (auto simp: convert_time_map_of)
  qed
  with r cs c1 show ?thesis by auto
qed

lemma nrows_via_map_of:
  assumes "df \<noteq> []" and "\<forall>k \<in> set (columns df). \<exists>c. map_of df k = Some c \<and> col_len c = n"
  shows "nrows df = n"
proof -
  from assms(1) obtain k c rest where df: "df = (k, c) # rest" by (cases df) auto
  then have "map_of df k = Some c" "k \<in> set (columns df)" by (simp_all add: columns_def)
  with assms(2) have "col_len c = n" by force
  with df show ?thesis by (simp add: nrows_def)
qed

lemma col_len_datetime: "col_len (to_datetime_coerce P c) = col_len c"
  by (cases c) simp_all

lemma col_len_numeric: "col_len (to_numeric_coerce P c) = col_len c"
  by (cases c) simp_all

lemma pipeline_nrows:
  assumes "distinct (columns df0)" and "df0 \<noteq> []" and "\<forall>(k, c) \<in> set df0. col_len c = n"
    and "numeric_loop P (columns (convert_time P df0)) (convert_time P df0) = Inr df2"
  shows "nrows df2 = n"
proof -
  from pipeline_ok[OF assms(1), of P] assms(4)
  have cs: "columns df2 = columns df0"
    and m: "\<forall>k c. (k, c) \<in> set df0 \<longrightarrow>
           map_of df2 k = Some (if k = ''time'' then to_datetime_coerce P c else to_numeric_coerce P c)"
    by auto
  have ne: "df2 \<noteq> []" using cs assms(2) by (auto simp: columns_def)
  have "\<forall>k \<in> set (columns df2). \<exists>c. map_of df2 k = Some c \<and> col_len c = n"
  proof
    fix k assume "k \<in> set (columns df2)"
    with cs obtain c where kc: "(k, c) \<in> set df0" by (auto simp: columns_def)
    with assms(3) have "col_len c = n" by auto
    with m kc show "\<exists>c. map_of df2 k = Some c \<and> col_len c = n"
      by (auto simp: col_len_datetime col_len_numeric)
  qed
  from nrows_via_map_of[OF ne this] show ?thesis .
qed


lemma metadata_labels:
  "prefix (columns df) (columns (set_now (set_str df ''location'' location) ''load_timestamp'' now))
   \<and> set (columns (set_now (set_str df ''location'' location) ''load_timestamp'' now))
       = set (columns df) \<union> {''location'', ''load_timestamp''}"
proof -
  have "prefix (columns df) (columns (set_str df ''location'' location))"
    by (simp add: set_str_def prefix_columns_setitem)
  moreover have "prefix (columns (set_str df ''location'' location))
      (columns (set_now (set_str df ''location'' location) ''load_timestamp'' now))"
    by (simp add: set_now_def prefix_columns_setitem)
  ultimately have "prefix (columns df) (columns (set_now (set_str df ''location'' location) ''load_timestamp'' now))"
    by (rule prefix_order.trans)
  moreover have "set (columns (set_now (set_str df ''location'' location) ''load_timestamp'' now))
       = set (columns df) \<union> {''location'', ''load_timestamp''}"
    by (auto simp: set_now_def set_str_def columns_setitem split: if_splits)
  ultimately show ?thesis by blast
qed

lemma DataFrame_series_eq:
  "series_items kvs = Inr cols \<Longrightarrow> DataFrame_series (JObj kvs) = Inr (series_frame cols)"
  by (simp add: DataFrame_series_def series_frame_def)

lemma columns_series_frame: "columns (series_frame cols) = map fst cols"
  by (simp add: series_frame_def columns_def case_prod_unfold)

lemma series_frame_lengths: "\<forall>(k, c) \<in> set (series_frame cols). col_len c = longest cols"
  by (auto simp: series_frame_def length_pad longest_ge)


lemma rename_columns: "columns (rename m df) = map (renamed m) (columns df)"
  by (simp add: rename_def columns_def case_prod_unfold)

lemma transform_daily_eq:
  assumes "py_get data ''daily'' (JObj []) = Inr (JObj kvs)" and "kvs \<noteq> []"
    and "distinct (map (renamed rename_map) (map fst kvs))" and "series_items kvs = Inr cols"
  shows "\<exists>df2. transform_daily P now data location
           = Inr (set_now (set_str df2 ''location'' location) ''load_timestamp'' now)
     \<and> columns df2 = map (renamed rename_map) (map fst kvs) \<and> nrows df2 = longest cols
     \<and> (\<forall>(k, xs) \<in> set cols.
           getitem df2 (renamed rename_map k) = Inr (if renamed rename_map k = ''time''
              then TsCol (map (parse_ts P (pad (longest cols) xs)) (pad (longest cols) xs))
              else NumCol (map (coerce_num P) (pad (longest cols) xs))))"
proof -
  let ?df0 = "rename rename_map (series_frame cols)"
  have c0: "columns ?df0 = map (renamed rename_map) (map fst kvs)"
    using series_items_fst[OF assms(4)] by (simp add: rename_columns columns_series_frame)
  with assms(3) have d0: "distinct (columns ?df0)" by simp
  have ne: "?df0 \<noteq> []" using c0 assms(2) by (auto simp: columns_def)
  have len: "\<forall>(k, c) \<in> set ?df0. col_len c = longest cols"
    using series_frame_lengths[of cols] by (auto simp: rename_def)
  from pipeline_ok[OF d0, of P]
  obtain df2 where r: "numeric_loop P (columns (convert_time P ?df0)) (convert_time P ?df0) = Inr df2"
    and cs: "columns df2 = columns ?df0"
    and m: "\<forall>k c. (k, c) \<in> set ?df0 \<longrightarrow>
           map_of df2 k = Some (if k = ''time'' then to_datetime_coerce P c else to_numeric_coerce P c)"
    by blast
  have nr: "nrows df2 = longest cols"
    by (rule pipeline_nrows[OF d0 ne len r])
  have t: "transform_daily P now data location
           = Inr (set_now (set_str df2 ''location'' location) ''load_timestamp'' now)"
    using assms(1,2) r DataFrame_series_eq[OF assms(4)]
    by (simp add: transform_daily_def validate_list_lengths_def Let_def)
  have cells: "\<forall>(k, xs) \<in> set cols.
           getitem df2 (renamed rename_map k) = Inr (if renamed rename_map k = ''time''
              then TsCol (map (parse_ts P (pad (longest cols) xs)) (pad (longest cols) xs))
              else NumCol (map (coerce_num P) (pad (longest cols) xs)))"
  proof (intro ballI, clarify)
    fix k xs assume "(k, xs) \<in> set cols"
    then have "(renamed rename_map k, ObjCol (pad (longest cols) xs)) \<in> set ?df0"
      by (force simp: series_frame_def rename_def)
    with m show "getitem df2 (renamed rename_map k) = Inr (if renamed rename_map k = ''time''
              then TsCol (map (parse_ts P (pad (longest cols) xs)) (pad (longest cols) xs))
              else NumCol (map (coerce_num P) (pad (longest cols) xs)))"
      by (auto simp: getitem_def)
  qed
  have cs': "columns df2 = map (renamed rename_map) (map fst kvs)" using cs c0 by simp
  from t cs' nr cells show ?thesis by blast
qed

lemma to_numeric_single:
  "to_numeric P (ObjCol [v]) = (case num_of P v of
       None \<Rightarrow> Inl (case v of JStr s \<Rightarrow> ValueError ''Unable to parse string'' | _ \<Rightarrow> TypeError)
     | Some r \<Rightarrow> Inr (NumCol [r]))"
  by (simp split: option.splits)



lemma renamed_sources:
  "renamed rename_map ''temperature_2m_max'' = ''temp_max''
   \<and> renamed rename_map ''temperature_2m_min'' = ''temp_min''
   \<and> renamed rename_map ''wind_speed_10m_max'' = ''wind_speed_max''
   \<and> renamed rename_map ''precipitation_sum'' = ''precip_total''"
  by (simp add: renamed_def rename_map_def)

lemma renamed_other:
  "k \<notin> {''temperature_2m_max'', ''temperature_2m_min'', ''wind_speed_10m_max'', ''precipitation_sum''}
     \<Longrightarrow> renamed rename_map k = k"
  by (simp add: renamed_def rename_map_def)

lemma renamed_range:
  "renamed rename_map k \<notin> {''temperature_2m_max'', ''temperature_2m_min'', ''wind_speed_10m_max'', ''precipitation_sum''}"
  by (simp add: renamed_def rename_map_def)


lemma series_items_rename:
  "series_items (map (\<lambda>(k, v). (f k, v)) kvs) =
     (case series_items kvs of Inl e \<Rightarrow> Inl e | Inr cols \<Rightarrow> Inr (map (\<lambda>(k, xs). (f k, xs)) cols))"
proof (induction kvs rule: series_items.induct)
  case 1
  then show ?case by simp
next
  case (2 k xs kvs)
  then show ?case by (simp split: sum.splits)
qed simp_all

lemma longest_rename: "longest (map (\<lambda>(k, xs). (f k, xs)) cols) = longest cols"
  by (induction cols) (auto simp: longest_def)

lemma DataFrame_series_rename:
  "DataFrame_series (JObj (map (\<lambda>(k, v). (renamed m k, v)) kvs)) =
     (case DataFrame_series (JObj kvs) of Inl e \<Rightarrow> Inl e | Inr df \<Rightarrow> Inr (rename m df))"
proof (cases "series_items kvs")
  case (Inl e)
  then show ?thesis by (simp add: DataFrame_series_def series_items_rename)
next
  case (Inr cols)
  have "map (\<lambda>(k, xs). (k, ObjCol (pad (longest cols) xs))) (map (\<lambda>(k, xs). (renamed m k, xs)) cols)
      = rename m (map (\<lambda>(k, xs). (k, ObjCol (pad (longest cols) xs))) cols)"
    by (simp add: rename_def case_prod_unfold)
  with Inr show ?thesis
    by (simp add: DataFrame_series_def series_items_rename longest_rename)
qed

lemma daily_as_hourly:
  assumes "py_get data ''daily'' (JObj []) = Inr (JObj kvs)"
  shows "transform_daily P now data location =
     transform_hourly P now
       (JObj [(''hourly'', JObj (map (\<lambda>(k, v). (renamed rename_map k, v)) kvs))]) location"
  using assms
  by (simp add: transform_daily_def transform_hourly_def py_get_def dict_get_def
      validate_list_lengths_def DataFrame_series_rename Let_def split: sum.splits)

lemma coerce_num_facts:
  "(\<forall>v. num_of P v = None \<longrightarrow> coerce_num P v = None)
   \<and> (\<forall>v r. num_of P v = Some r \<longrightarrow> coerce_num P v = r)
   \<and> (\<forall>x. coerce_num P (JNum x) = Some x)
   \<and> (\<forall>s. s \<noteq> [] \<and> parse_float P s = None \<longrightarrow> num_of P (JStr s) = None)"
  by (simp add: coerce_num_def)


text \<open>
  Claim C3. On a daily section that is a non-empty dict of arrays, the table
  \<^verbatim>\<open>transform_daily\<close> returns has the labels of the section with exactly the four
  renamings \<open>temperature_2m_max\<close> to \<open>temp_max\<close>, \<open>temperature_2m_min\<close> to \<open>temp_min\<close>,
  \<open>wind_speed_10m_max\<close> to \<open>wind_speed_max\<close> and \<open>precipitation_sum\<close> to \<open>precip_total\<close>
  applied, followed by the metadata columns; none of the four source names is left, and
  the column under a new name holds the coerced values of the array under the old one.
  The rename comes before the coercion: the result is what the hourly transform (which
  only coerces) returns on the section with its keys renamed beforehand.
\<close>

theorem daily_rename_before_coercion:
  assumes "py_get data ''daily'' (JObj []) = Inr (JObj kvs)" and "kvs \<noteq> []"
    and "distinct (map (renamed rename_map) (map fst kvs))" and "series_items kvs = Inr cols"
  shows "\<exists>df. transform_daily P now data location = Inr df
     \<and> prefix (map (renamed rename_map) (map fst kvs)) (columns df)
     \<and> set (columns df) = renamed rename_map ` fst ` set kvs \<union> {''location'', ''load_timestamp''}
     \<and> renamed rename_map ''temperature_2m_max'' = ''temp_max''
     \<and> renamed rename_map ''temperature_2m_min'' = ''temp_min''
     \<and> renamed rename_map ''wind_speed_10m_max'' = ''wind_speed_max''
     \<and> renamed rename_map ''precipitation_sum'' = ''precip_total''
     \<and> (\<forall>k. k \<notin> {''temperature_2m_max'', ''temperature_2m_min'', ''wind_speed_10m_max'',
                  ''precipitation_sum''} \<longrightarrow> renamed rename_map k = k)
     \<and> (\<forall>(k, xs) \<in> set cols.
           k \<in> {''temperature_2m_max'', ''temperature_2m_min'', ''wind_speed_10m_max'', ''precipitation_sum''}
           \<longrightarrow> getitem df (renamed rename_map k) = Inr (NumCol (map (coerce_num P) (pad (longest cols) xs))))
     \<and> (\<forall>k \<in> {''temperature_2m_max'', ''temperature_2m_min'', ''wind_speed_10m_max'',
                  ''precipitation_sum''}. k \<notin> set (columns df))
     \<and> transform_daily P now data location =
         transform_hourly P now
           (JObj [(''hourly'', JObj (map (\<lambda>(k, v). (renamed rename_map k, v)) kvs))]) location"
proof -
  from transform_daily_eq[OF assms, of P now location]
  obtain df2 where t: "transform_daily P now data location
           = Inr (set_now (set_str df2 ''location'' location) ''load_timestamp'' now)"
    and cs: "columns df2 = map (renamed rename_map) (map fst kvs)"
    and cells: "\<forall>(k, xs) \<in> set cols.
           getitem df2 (renamed rename_map k) = Inr (if renamed rename_map k = ''time''
              then TsCol (map (parse_ts P (pad (longest cols) xs)) (pad (longest cols) xs))
              else NumCol (map (coerce_num P) (pad (longest cols) xs)))"
    by blast
  let ?df = "set_now (set_str df2 ''location'' location) ''load_timestamp'' now"
  from metadata_labels[of df2 location now] cs
  have p: "prefix (map (renamed rename_map) (map fst kvs)) (columns ?df)"
    and s: "set (columns ?df) = renamed rename_map ` fst ` set kvs \<union> {''location'', ''load_timestamp''}"
    by auto
  have c: "\<forall>(k, xs) \<in> set cols.
           k \<in> {''temperature_2m_max'', ''temperature_2m_min'', ''wind_speed_10m_max'', ''precipitation_sum''}
           \<longrightarrow> getitem ?df (renamed rename_map k) = Inr (NumCol (map (coerce_num P) (pad (longest cols) xs)))"
    using cells by (auto simp: getitem_set_now getitem_set_str renamed_def rename_map_def)
  have g: "\<forall>k \<in> {''temperature_2m_max'', ''temperature_2m_min'', ''wind_speed_10m_max'',
                  ''precipitation_sum''}. k \<notin> set (columns ?df)"
  proof
    fix k assume k: "k \<in> {''temperature_2m_max'', ''temperature_2m_min'', ''wind_speed_10m_max'',
                  ''precipitation_sum''}"
    then have "\<And>a. renamed rename_map a \<noteq> k" by (metis renamed_range)
    moreover from k have "k \<noteq> ''location'' \<and> k \<noteq> ''load_timestamp''" by auto
    ultimately show "k \<notin> set (columns ?df)" unfolding s by blast
  qed
  have o: "\<forall>k. k \<notin> {''temperature_2m_max'', ''temperature_2m_min'', ''wind_speed_10m_max'',
                  ''precipitation_sum''} \<longrightarrow> renamed rename_map k = k"
    using renamed_other by blast
  from t p s renamed_sources o c g daily_as_hourly[OF assms(1), of P now location]
  show ?thesis by (intro exI[of _ ?df]) simp
qed










lemma daily_hyps:
  "py_get payload_conform ''daily'' (JObj []) = Inr (JObj daily_items)
   \<and> daily_items \<noteq> [] \<and> distinct (map (renamed rename_map) (map fst daily_items))
   \<and> series_items daily_items =
       Inr [(''time'', [JStr ''2024-05-01'', JStr ''soon'']),
            (''temperature_2m_max'', [JNum 40, JStr ''hot'']),
            (''precipitation_sum'', [JStr ''1.5''])]"
  by (simp add: payload_conform_def py_get_def dict_get_def daily_items_def renamed_def rename_map_def)


lemma payload_conform_daily:
  "transform_daily iso_parsers 7 payload_conform ''delhi'' = Inr conformed_daily"
  by (simp add: transform_daily_def payload_conform_def py_get_def dict_get_def daily_items_def
      validate_list_lengths_def DataFrame_series_def longest_def pad_def rename_def renamed_def
      rename_map_def convert_time_def columns_def getitem_def iso_parsers_def coerce_num_def
      set_str_def set_now_def nrows_def conformed_daily_def Let_def)


theorem daily_rename_before_coercion_witness:
  "py_get payload_conform ''daily'' (JObj []) = Inr (JObj daily_items)
   \<and> daily_items \<noteq> [] \<and> distinct (map (renamed rename_map) (map fst daily_items))
   \<and> (\<exists>df. transform_daily iso_parsers 7 payload_conform ''delhi'' = Inr df
         \<and> columns df = [''time'', ''temp_max'', ''precip_total'', ''location'', ''load_timestamp'']
         \<and> getitem df ''temp_max'' = Inr (NumCol [Some 40, None])
         \<and> getitem df ''temperature_2m_max'' = Inl (KeyError ''temperature_2m_max''))"
proof -
  let ?dcols = "[(''time'', [JStr ''2024-05-01'', JStr ''soon'']),
        (''temperature_2m_max'', [JNum 40, JStr ''hot'']),
        (''precipitation_sum'', [JStr ''1.5''])]"
  from daily_hyps have h1: "py_get payload_conform ''daily'' (JObj []) = Inr (JObj daily_items)"
    and h2: "daily_items \<noteq> []"
    and h3: "distinct (map (renamed rename_map) (map fst daily_items))"
    and h4: "series_items daily_items = Inr ?dcols"
    by simp_all
  from daily_rename_before_coercion[OF h1 h2 h3 h4, of iso_parsers 7 "''delhi''"]
  obtain df where d: "transform_daily iso_parsers 7 payload_conform ''delhi'' = Inr df"
    and g: "\<forall>(k, xs) \<in> set ?dcols.
           k \<in> {''temperature_2m_max'', ''temperature_2m_min'', ''wind_speed_10m_max'', ''precipitation_sum''}
           \<longrightarrow> getitem df (renamed rename_map k)
                 = Inr (NumCol (map (coerce_num iso_parsers) (pad (longest ?dcols) xs)))"
    by (elim exE conjE)
  have t: "getitem df ''temp_max'' = Inr (NumCol [Some 40, None])"
    using g by (simp add: iso_parsers_def longest_def pad_def coerce_num_def renamed_def rename_map_def)
  from d payload_conform_daily have "df = conformed_daily" by simp
  then have "columns df = [''time'', ''temp_max'', ''precip_total'', ''location'', ''load_timestamp'']
         \<and> getitem df ''temperature_2m_max'' = Inl (KeyError ''temperature_2m_max'')"
    by (simp add: conformed_daily_def columns_def getitem_def)
  with d t have "\<exists>df. transform_daily iso_parsers 7 payload_conform ''delhi'' = Inr df
         \<and> columns df = [''time'', ''temp_max'', ''precip_total'', ''location'', ''load_timestamp'']
         \<and> getitem df ''temp_max'' = Inr (NumCol [Some 40, None])
         \<and> getitem df ''temperature_2m_max'' = Inl (KeyError ''temperature_2m_max'')"
    by (intro exI[of _ df]) simp
  with h1 h2 h3 show ?thesis by (intro conjI)
qed


end
